theory Spec2Isabelle
  imports Main "HOL-Library.Word" "HOL-Library.AList" "HOL-Library.Char_ord"
    "HOL-Library.List_Lexorder"
begin

unbundle bit_operations_syntax

section \<open>The on-disk cache of the Windows DCAP client (local\_cache.cpp)\<close>

text \<open>
  The three operations of \<^verbatim>\<open>src/Windows/dll/local_cache.cpp\<close>
  (\<^verbatim>\<open>local_cache_add\<close>, \<^verbatim>\<open>local_cache_get\<close>, \<^verbatim>\<open>local_cache_clear\<close>) and
  their helpers are embedded as functions that pass a \<open>world\<close> along: the state of the
  process (the once-flag and \<^verbatim>\<open>g_cache_dirname\<close>), the thread's last-error value, and
  the part of the operating system the code talks to (environment block, directories,
  files, clock). Every \<^verbatim>\<open>throw\<close> is the \<open>Inl\<close> branch of a sum.
\<close>

subsection \<open>Machine types and constants\<close>

type_synonym byte = "8 word"
type_synonym dword = "32 word"
type_synonym time_t = "64 word" \<comment> \<open>\<^verbatim>\<open>__int64\<close>, read as signed by \<open>sint\<close>\<close>
type_synonym path = string

definition MAX_RETRY :: nat where
  "MAX_RETRY = 10000"

definition SLEEP_RETRY_MS :: nat where
  "SLEEP_RETRY_MS = 15"

definition CACHE_V1 :: "16 word" where
  "CACHE_V1 = 1"

text \<open>The system error codes of \<^verbatim>\<open>winerror.h\<close> that the code or the model names.\<close>

definition ERROR_SUCCESS :: dword where "ERROR_SUCCESS = 0"
definition ERROR_FILE_NOT_FOUND :: dword where "ERROR_FILE_NOT_FOUND = 2"
definition ERROR_PATH_NOT_FOUND :: dword where "ERROR_PATH_NOT_FOUND = 3"
definition ERROR_ACCESS_DENIED :: dword where "ERROR_ACCESS_DENIED = 5"
definition ERROR_INVALID_HANDLE :: dword where "ERROR_INVALID_HANDLE = 6"
definition ERROR_NO_MORE_FILES :: dword where "ERROR_NO_MORE_FILES = 18"
definition ERROR_SHARING_VIOLATION :: dword where "ERROR_SHARING_VIOLATION = 32"
definition ERROR_ALREADY_EXISTS :: dword where "ERROR_ALREADY_EXISTS = 183"
definition ERROR_ENVVAR_NOT_FOUND :: dword where "ERROR_ENVVAR_NOT_FOUND = 203"

lemmas winerror_defs =
  ERROR_SUCCESS_def ERROR_FILE_NOT_FOUND_def ERROR_PATH_NOT_FOUND_def
  ERROR_ACCESS_DENIED_def ERROR_INVALID_HANDLE_def ERROR_NO_MORE_FILES_def
  ERROR_SHARING_VIOLATION_def ERROR_ALREADY_EXISTS_def ERROR_ENVVAR_NOT_FOUND_def

text \<open>
  Every exception the file throws is a \<^verbatim>\<open>std::runtime_error\<close> with a fixed message;
  the constructor names the message. \<open>Vector_too_long\<close> is the \<^verbatim>\<open>std::length_error\<close> of
  \<^verbatim>\<open>std::vector\<close>'s sizing constructor, the one exception that the file does not throw
  itself.
\<close>

datatype error =
    Id_must_not_be_empty            \<comment> \<open>"The 'id' parameter must not be empty."\<close>
  | Data_cannot_be_empty            \<comment> \<open>"Data cannot be empty."\<close>
  | Data_pointer_must_not_be_NULL   \<comment> \<open>"Data pointer must not be NULL."\<close>
  | Environment_not_defined         \<comment> \<open>"LOCALAPPDATA and AZDCAPCACHE environment variables not defined"\<close>
  | Path_not_found                  \<comment> \<open>"Path not found"\<close>
  | BCrypt_error                    \<comment> \<open>the \<^verbatim>\<open>errorString\<close> of \<^verbatim>\<open>sha256\<close>\<close>
  | Deleting_file_failed            \<comment> \<open>"Deleting file failed, error code ..."\<close>
  | Create_file_failed              \<comment> \<open>"Create file failed"\<close>
  | Header_write_failed             \<comment> \<open>"Header write to local cache failed"\<close>
  | Data_write_failed               \<comment> \<open>"Data write to local cache failed"\<close>
  | Header_read_failed              \<comment> \<open>"Header read from local cache failed"\<close>
  | Data_read_failed                \<comment> \<open>"Data read from local cache failed"\<close>
  | Something_wrong_with_data       \<comment> \<open>"Something wrong with data"\<close>
  | Vector_too_long                 \<comment> \<open>\<^verbatim>\<open>std::length_error\<close> from \<^verbatim>\<open>std::vector\<close>\<close>

text \<open>The argument errors are the three precondition messages.\<close>

definition argument_error :: "error \<Rightarrow> bool" where
  "argument_error e \<longleftrightarrow>
     e = Id_must_not_be_empty \<or> e = Data_cannot_be_empty \<or> e = Data_pointer_must_not_be_NULL"

subsection \<open>The world\<close>

text \<open>
  The operating system is the part of the world the source does not define. The model
  gives each API call its documented nominal behaviour on the state below, and lets the
  environment make any call fail: \<open>faults\<close> is a script of error codes, one entry read
  by each fallible API call in program order (\<open>fault_pos\<close> is the cursor). Entry \<open>0\<close>
  lets the call behave nominally; any other entry makes the call fail with that code as
  the thread's last error. A theorem that holds for every world therefore holds for
  every way the file system can fail.

  \<open>fresh\<close> is the content that successive \<^verbatim>\<open>new TCHAR[buffSize]\<close> allocations are
  found to hold, read as a NUL-terminated string (\<^verbatim>\<open>new[]\<close> does not initialise
  the array); \<open>bcrypt\<close> is what the BCrypt provider and the process heap answer to the
  calls of \<^verbatim>\<open>sha256\<close> on a given input: the \<^verbatim>\<open>NTSTATUS\<close> of each call, whether
  each \<^verbatim>\<open>HeapAlloc\<close> returns memory, and the digest bytes.
\<close>

record bcrypt_calls =
  open_algorithm_provider :: int
  get_object_length :: int
  alloc_hash_object :: bool
  get_hash_length :: int
  alloc_hash :: bool
  create_hash :: int
  hash_data :: int
  finish_hash :: int
  hash_bytes :: "byte list"

record world =
  environ :: "string \<rightharpoonup> string"
  fresh :: "nat \<Rightarrow> string"
  allocs :: nat
  bcrypt :: "string \<Rightarrow> bcrypt_calls"
  dirs :: "path list"
  files :: "(path \<times> byte list) list"
  last_error :: dword
  now :: time_t
  slept :: nat
  faults :: "nat \<Rightarrow> dword"
  fault_pos :: nat
  init_flag :: bool
  g_cache_dirname :: path

definition take_fault :: "world \<Rightarrow> dword \<times> world" where
  "take_fault w = (faults w (fault_pos w), w\<lparr>fault_pos := Suc (fault_pos w)\<rparr>)"

definition GetLastError :: "world \<Rightarrow> dword" where
  "GetLastError w = last_error w"

definition backslash :: string where
  "backslash = [CHR 0x5C]"

subsection \<open>Paths\<close>

text \<open>
  \<open>in_dir d p\<close>: the path \<open>p\<close> names an entry of the directory \<open>d\<close>, that is, \<open>p\<close> is
  \<open>d\<close>, a backslash and a name without a backslash; \<open>entry_name d p\<close> is that name. A
  path has a parent in the world when it names an entry of a directory that exists.
\<close>

definition in_dir :: "path \<Rightarrow> path \<Rightarrow> bool" where
  "in_dir d p \<longleftrightarrow>
     take (length d + 1) p = d @ backslash \<and> drop (length d + 1) p \<noteq> [] \<and>
     CHR 0x5C \<notin> set (drop (length d + 1) p)"

definition entry_name :: "path \<Rightarrow> path \<Rightarrow> string" where
  "entry_name d p = drop (length d + 1) p"

definition has_parent :: "path \<Rightarrow> world \<Rightarrow> bool" where
  "has_parent p w \<longleftrightarrow> (\<exists>d\<in>set (dirs w). in_dir d p)"

subsection \<open>The Win32 calls\<close>

text \<open>
  \<^verbatim>\<open>new TCHAR[buffSize]\<close>: the array is not initialised, its content is whatever the
  heap holds.
\<close>

definition new_TCHAR :: "world \<Rightarrow> string \<times> world" where
  "new_TCHAR w = (fresh w (allocs w), w\<lparr>allocs := Suc (allocs w)\<rparr>)"

text \<open>
  \<^verbatim>\<open>GetEnvironmentVariable(name, buf, buffSize)\<close>: a variable that exists is copied
  into the buffer (the environment block bounds a value at 32767 characters, below
  \<^verbatim>\<open>buffSize\<close>); for one that does not, the call returns 0, sets the last error and
  leaves the buffer as it was. The source ignores the return value, so the model returns
  the buffer only.
\<close>

definition GetEnvironmentVariable :: "string \<Rightarrow> string \<Rightarrow> world \<Rightarrow> string \<times> world" where
  "GetEnvironmentVariable name buf w =
     (case environ w name of
        Some v \<Rightarrow> (v, w)
      | None \<Rightarrow> (buf, w\<lparr>last_error := ERROR_ENVVAR_NOT_FOUND\<rparr>))"

text \<open>
  \<^verbatim>\<open>CreateDirectory\<close>: fails with \<^verbatim>\<open>ERROR_ALREADY_EXISTS\<close> when the path exists, and
  with \<^verbatim>\<open>ERROR_PATH_NOT_FOUND\<close> when the directory that is to hold the new one does not
  exist; every other failure (a protected parent is \<^verbatim>\<open>ERROR_ACCESS_DENIED\<close>) comes
  from the fault script. Success leaves the last error as it was.
\<close>

definition CreateDirectory :: "path \<Rightarrow> world \<Rightarrow> bool \<times> world" where
  "CreateDirectory d w =
     (let (e, w1) = take_fault w in
      if e \<noteq> 0 then (False, w1\<lparr>last_error := e\<rparr>)
      else if d \<in> set (dirs w1) \<or> map_of (files w1) d \<noteq> None
      then (False, w1\<lparr>last_error := ERROR_ALREADY_EXISTS\<rparr>)
      else if \<not> has_parent d w1 then (False, w1\<lparr>last_error := ERROR_PATH_NOT_FOUND\<rparr>)
      else (True, w1\<lparr>dirs := d # dirs w1\<rparr>))"

datatype access = GENERIC_READ | GENERIC_WRITE
datatype disposition = CREATE_ALWAYS | OPEN_EXISTING

text \<open>
  A file handle is the path it was opened on and the file pointer.
  \<^verbatim>\<open>INVALID_HANDLE_VALUE\<close> is \<open>None\<close>.
\<close>

record handle =
  hpath :: path
  hpos :: nat

type_synonym HANDLE = "handle option"

text \<open>
  \<^verbatim>\<open>CreateFile\<close>: \<^verbatim>\<open>OPEN_EXISTING\<close> fails on a missing file, with
  \<^verbatim>\<open>ERROR_FILE_NOT_FOUND\<close>, or with \<^verbatim>\<open>ERROR_PATH_NOT_FOUND\<close> when its directory is
  missing too; \<^verbatim>\<open>CREATE_ALWAYS\<close> fails with \<^verbatim>\<open>ERROR_PATH_NOT_FOUND\<close> when the
  directory of the file does not exist and with \<^verbatim>\<open>ERROR_ACCESS_DENIED\<close> on the path of
  a directory; otherwise it creates the file or truncates it, and then reports
  \<^verbatim>\<open>ERROR_ALREADY_EXISTS\<close> as the last error of the successful call. Every other
  success sets the last error to zero. A sharing violation, like every failure that the
  state below does not determine, comes from the fault script. The share mode, the
  attributes and the template of the call have no part in the model.
\<close>

definition CreateFile :: "path \<Rightarrow> access \<Rightarrow> disposition \<Rightarrow> world \<Rightarrow> HANDLE \<times> world" where
  "CreateFile p acc disp w =
     (let (e, w1) = take_fault w in
      if e \<noteq> 0 then (None, w1\<lparr>last_error := e\<rparr>)
      else (case disp of
          OPEN_EXISTING \<Rightarrow>
            (case map_of (files w1) p of
               None \<Rightarrow>
                 (None, w1\<lparr>last_error := (if has_parent p w1 then ERROR_FILE_NOT_FOUND
                                           else ERROR_PATH_NOT_FOUND)\<rparr>)
             | Some c \<Rightarrow> (Some \<lparr>hpath = p, hpos = 0\<rparr>, w1\<lparr>last_error := 0\<rparr>))
        | CREATE_ALWAYS \<Rightarrow>
            (if \<not> has_parent p w1 then (None, w1\<lparr>last_error := ERROR_PATH_NOT_FOUND\<rparr>)
             else if p \<in> set (dirs w1) then (None, w1\<lparr>last_error := ERROR_ACCESS_DENIED\<rparr>)
             else
              (Some \<lparr>hpath = p, hpos = 0\<rparr>,
               w1\<lparr>files := AList.update p [] (files w1),
                  last_error :=
                    (if map_of (files w1) p = None then 0 else ERROR_ALREADY_EXISTS)\<rparr>))))"

definition Sleep :: "nat \<Rightarrow> world \<Rightarrow> world" where
  "Sleep ms w = w\<lparr>slept := slept w + ms\<rparr>"

definition CloseHandle :: "HANDLE \<Rightarrow> world \<Rightarrow> world" where
  "CloseHandle h w = (case h of None \<Rightarrow> w\<lparr>last_error := ERROR_INVALID_HANDLE\<rparr> | Some _ \<Rightarrow> w)"

text \<open>
  \<^verbatim>\<open>WriteFile(file, buf, n, &written, nullptr)\<close> writes the bytes at the file pointer
  and advances it; \<^verbatim>\<open>ReadFile(file, buf, n, &read, nullptr)\<close> returns the bytes from the
  file pointer on, at most \<open>n\<close> of them and fewer at the end of the file, which is a
  success. Neither touches the last error when it succeeds.
\<close>

definition WriteFile :: "handle \<Rightarrow> byte list \<Rightarrow> world \<Rightarrow> bool \<times> handle \<times> world" where
  "WriteFile h bs w =
     (let (e, w1) = take_fault w in
      if e \<noteq> 0 then (False, h, w1\<lparr>last_error := e\<rparr>)
      else (case map_of (files w1) (hpath h) of
          None \<Rightarrow> (False, h, w1\<lparr>last_error := ERROR_INVALID_HANDLE\<rparr>)
        | Some c \<Rightarrow>
            (True, h\<lparr>hpos := hpos h + length bs\<rparr>,
             w1\<lparr>files := AList.update (hpath h)
                   (take (hpos h) c @ bs @ drop (hpos h + length bs) c) (files w1)\<rparr>)))"

definition ReadFile :: "handle \<Rightarrow> nat \<Rightarrow> world \<Rightarrow> bool \<times> byte list \<times> handle \<times> world" where
  "ReadFile h n w =
     (let (e, w1) = take_fault w in
      if e \<noteq> 0 then (False, [], h, w1\<lparr>last_error := e\<rparr>)
      else (case map_of (files w1) (hpath h) of
          None \<Rightarrow> (False, [], h, w1\<lparr>last_error := ERROR_INVALID_HANDLE\<rparr>)
        | Some c \<Rightarrow>
            (let bs = take n (drop (hpos h) c)
             in (True, bs, h\<lparr>hpos := hpos h + length bs\<rparr>, w1))))"

text \<open>\<^verbatim>\<open>GetFileSize(file, nullptr)\<close>: the low 32 bits of the size.\<close>

definition GetFileSize :: "handle \<Rightarrow> world \<Rightarrow> nat" where
  "GetFileSize h w =
     (case map_of (files w) (hpath h) of
        None \<Rightarrow> 2 ^ 32 - 1
      | Some c \<Rightarrow> length c mod 2 ^ 32)"

text \<open>
  \<^verbatim>\<open>DeleteFileW\<close> deletes a file. On the path of a directory it fails with
  \<^verbatim>\<open>ERROR_ACCESS_DENIED\<close>.
\<close>

definition DeleteFileW :: "path \<Rightarrow> world \<Rightarrow> bool \<times> world" where
  "DeleteFileW p w =
     (let (e, w1) = take_fault w in
      if e \<noteq> 0 then (False, w1\<lparr>last_error := e\<rparr>)
      else if map_of (files w1) p = None
      then (False, w1\<lparr>last_error := (if p \<in> set (dirs w1) then ERROR_ACCESS_DENIED
                                        else ERROR_FILE_NOT_FOUND)\<rparr>)
      else (True, w1\<lparr>files := AList.delete p (files w1)\<rparr>))"

definition time :: "world \<Rightarrow> time_t" where
  "time w = now w"

text \<open>
  \<^verbatim>\<open>FindFirstFile(dir\*)\<close> and \<^verbatim>\<open>FindNextFile\<close> enumerate a directory: the two
  pseudo-entries first, then the entries of the directory, files and subdirectories
  alike, in the order of their names (the order in which NTFS returns them). The search
  handle is the list of the names still to come. \<^verbatim>\<open>FindFirstFile\<close> returns the first
  name and the handle, \<open>None\<close> for \<^verbatim>\<open>INVALID_HANDLE_VALUE\<close>; \<^verbatim>\<open>FindNextFile\<close> returns
  the next name and the handle, \<open>None\<close> for \<^verbatim>\<open>FALSE\<close>: at the end of the enumeration
  with \<^verbatim>\<open>ERROR_NO_MORE_FILES\<close>, and before it when the fault script makes the call
  fail.
\<close>

definition dir_entries :: "path \<Rightarrow> world \<Rightarrow> string list" where
  "dir_entries d w =
     sort (map (entry_name d) (filter (in_dir d) (map fst (files w) @ dirs w)))"

definition FindFirstFile ::
  "string \<Rightarrow> world \<Rightarrow> (string \<times> string list) option \<times> world" where
  "FindFirstFile pattern w =
     (let (e, w1) = take_fault w;
          d = take (length pattern - 2) pattern
      in if e \<noteq> 0 then (None, w1\<lparr>last_error := e\<rparr>)
         else if d \<notin> set (dirs w1) then (None, w1\<lparr>last_error := ERROR_PATH_NOT_FOUND\<rparr>)
         else (Some (''.'', ''..'' # dir_entries d w1), w1))"

definition FindNextFile ::
  "string list \<Rightarrow> world \<Rightarrow> (string \<times> string list) option \<times> world" where
  "FindNextFile hFind w =
     (let (e, w1) = take_fault w
      in if e \<noteq> 0 then (None, w1\<lparr>last_error := e\<rparr>)
         else (case hFind of
             [] \<Rightarrow> (None, w1\<lparr>last_error := ERROR_NO_MORE_FILES\<rparr>)
           | name # rest \<Rightarrow> (Some (name, rest), w1)))"

definition FindClose :: "string list \<Rightarrow> world \<Rightarrow> world" where
  "FindClose hFind w = w"

subsection \<open>The entry header\<close>

text \<open>
  \<^verbatim>\<open>struct CacheEntryHeaderV1 { uint16_t version; time_t expiry; }\<close>. The file is
  written and read through the object representation of the struct
  (\<^verbatim>\<open>WriteFile(file, &header, sizeof(header), ...)\<close>, \<^verbatim>\<open>(CacheEntryHeaderV1*)buf\<close>),
  so the layout on disk is the layout the compiler gives the struct. The source has no
  packing pragma; under the Windows ABI \<^verbatim>\<open>time_t\<close> is the 8-byte \<^verbatim>\<open>__int64\<close>,
  aligned to 8: \<^verbatim>\<open>version\<close> is at offset 0, six bytes of padding follow,
  \<^verbatim>\<open>expiry\<close> is at offset 8 and \<^verbatim>\<open>sizeof(CacheEntryHeaderV1)\<close> is 16. Integers are
  little-endian. \<^verbatim>\<open>CacheEntryHeaderV1 header{}\<close> zeroes the padding.
\<close>

record CacheEntryHeaderV1 =
  version :: "16 word"
  expiry :: time_t

definition offsetof_version :: nat where
  "offsetof_version = 0"

definition offsetof_expiry :: nat where
  "offsetof_expiry = 8"

definition sizeof_CacheEntryHeaderV1 :: nat where
  "sizeof_CacheEntryHeaderV1 = 16"

definition le_bytes :: "nat \<Rightarrow> 'a::len word \<Rightarrow> byte list" where
  "le_bytes n x = map (\<lambda>i. ucast (drop_bit (8 * i) x)) [0..<n]"

definition le_word :: "byte list \<Rightarrow> 'a::len word" where
  "le_word bs = foldr (\<lambda>b acc. ucast b OR push_bit 8 acc) bs 0"

definition header_bytes :: "CacheEntryHeaderV1 \<Rightarrow> byte list" where
  "header_bytes hdr =
     le_bytes 2 (version hdr)
     @ replicate (offsetof_expiry - 2) 0
     @ le_bytes 8 (expiry hdr)"

definition header_of_bytes :: "byte list \<Rightarrow> CacheEntryHeaderV1" where
  "header_of_bytes buf =
     \<lparr>version = le_word (take 2 (drop offsetof_version buf)),
      expiry = le_word (take 8 (drop offsetof_expiry buf))\<rparr>"

text \<open>
  \<open>store_bytes bs buf\<close> is the buffer \<open>buf\<close> after an API call has stored the bytes
  \<open>bs\<close> at its start: the bytes beyond \<open>length bs\<close> keep their value.
\<close>

definition store_bytes :: "byte list \<Rightarrow> byte list \<Rightarrow> byte list" where
  "store_bytes bs buf = bs @ drop (length bs) buf"

subsection \<open>Directory resolution\<close>

definition make_dir :: "path \<Rightarrow> world \<Rightarrow> (error + unit) \<times> world" where
  "make_dir dirname w =
     (let (created, w1) = CreateDirectory dirname w
      in if GetLastError w1 = ERROR_PATH_NOT_FOUND \<and> GetLastError w1 \<noteq> ERROR_ALREADY_EXISTS
         then (Inl Path_not_found, w1)
         else (Inr (), w1))"

text \<open>
  \<^verbatim>\<open>env_home != 0\<close> holds for every pointer \<^verbatim>\<open>new\<close> returns, so the tests are on the
  first character of each buffer. \<^verbatim>\<open>wenv_home\<close> is not used.
\<close>

definition init_callback :: "world \<Rightarrow> (error + unit) \<times> world" where
  "init_callback w =
     (let (buf_home, w1) = new_TCHAR w;
          (env_home, w2) = GetEnvironmentVariable ''LOCALAPPDATA'' buf_home w1;
          (buf_cache, w3) = new_TCHAR w2;
          (env_azdcap_cache, w4) = GetEnvironmentVariable ''AZDCAP_CACHE'' buf_cache w3;
          application_name = backslash @ ''.az-dcap-client''
      in case (if env_home \<noteq> [] then Inr env_home
               else if env_azdcap_cache \<noteq> [] then Inr env_azdcap_cache
               else Inl Environment_not_defined) of
           Inl e \<Rightarrow> (Inl e, w4)
         | Inr base \<Rightarrow>
             (let dirname = base @ application_name
              in case make_dir dirname w4 of
                   (Inl e, w5) \<Rightarrow> (Inl e, w5)
                 | (Inr u, w5) \<Rightarrow> (Inr (), w5\<lparr>g_cache_dirname := dirname\<rparr>)))"

text \<open>
  \<^verbatim>\<open>std::call_once(init_flag, init_callback)\<close>: a call that throws leaves the flag
  unset, and the next call runs the callback again.
\<close>

definition init :: "world \<Rightarrow> (error + unit) \<times> world" where
  "init w =
     (if init_flag w then (Inr (), w)
      else case init_callback w of
             (Inl e, w1) \<Rightarrow> (Inl e, w1)
           | (Inr u, w1) \<Rightarrow> (Inr (), w1\<lparr>init_flag := True\<rparr>))"

subsection \<open>The file name of a key\<close>

definition NT_SUCCESS :: "int \<Rightarrow> bool" where
  "NT_SUCCESS status \<longleftrightarrow> status \<ge> 0"

definition hex_digit :: "nat \<Rightarrow> char" where
  "hex_digit n = ''0123456789abcdef'' ! (n mod 16)"

text \<open>\<^verbatim>\<open>snprintf(buf, sizeof(buf), "%02x", pbHash[i])\<close>\<close>

definition hex_byte :: "byte \<Rightarrow> string" where
  "hex_byte b = [hex_digit (unat b div 16), hex_digit (unat b mod 16)]"

text \<open>
  \<^verbatim>\<open>sha256\<close>: each failing step sets a failing \<^verbatim>\<open>status\<close> and jumps to
  \<^verbatim>\<open>Cleanup\<close>, where \<^verbatim>\<open>throw_if(!NT_SUCCESS(status), errorString)\<close> throws. The
  second step is written \<^verbatim>\<open>NT_SUCCESS(status == BCryptGetProperty(...))\<close>: it compares
  where the other steps assign, and the truth value, 0 or 1, always passes.
\<close>

definition sha256 :: "world \<Rightarrow> string \<Rightarrow> error + string" where
  "sha256 w input =
     (let r = bcrypt w input;
          status = open_algorithm_provider r
      in if \<not> NT_SUCCESS status then Inl BCrypt_error
         else if \<not> NT_SUCCESS (of_bool (status = get_object_length r)) then Inl BCrypt_error
         else if \<not> alloc_hash_object r then Inl BCrypt_error
         else if \<not> NT_SUCCESS (get_hash_length r) then Inl BCrypt_error
         else if \<not> alloc_hash r then Inl BCrypt_error
         else if \<not> NT_SUCCESS (create_hash r) then Inl BCrypt_error
         else if \<not> NT_SUCCESS (hash_data r) then Inl BCrypt_error
         else if \<not> NT_SUCCESS (finish_hash r) then Inl BCrypt_error
         else Inr (concat (map hex_byte (hash_bytes r))))"

definition get_file_name :: "string \<Rightarrow> world \<Rightarrow> error + path" where
  "get_file_name ident w =
     (case sha256 w ident of
        Inl e \<Rightarrow> Inl e
      | Inr h \<Rightarrow> Inr (g_cache_dirname w @ backslash @ h))"

subsection \<open>local\_cache\_clear\<close>

text \<open>
  The \<^verbatim>\<open>do ... while (FindNextFile(hFind, &data))\<close> loop: \<open>fileName\<close> is the entry in
  \<^verbatim>\<open>data\<close>. The body runs, then \<^verbatim>\<open>FindNextFile\<close> decides whether the loop goes on:
  when it returns \<^verbatim>\<open>FALSE\<close>, at the end of the enumeration or on a failure, the loop
  is left and the function returns normally. The text of the exception (the source adds
  \<^verbatim>\<open>GetLastError()\<close> to the address of a string literal, on every iteration) is not
  part of the model.
\<close>

function clear_loop ::
  "path \<Rightarrow> string \<Rightarrow> string list \<Rightarrow> world \<Rightarrow> (error + unit) \<times> world" where
  "clear_loop baseDir fileName hFind w =
     (if fileName \<noteq> ''.'' \<and> fileName \<noteq> ''..'' then
        (let fullFileName = baseDir @ backslash @ fileName;
             (deleted, w1) = DeleteFileW fullFileName w
         in if \<not> deleted then (Inl Deleting_file_failed, FindClose hFind w1)
            else (case FindNextFile hFind w1 of
                    (None, w2) \<Rightarrow> (Inr (), FindClose hFind w2)
                  | (Some (name, hFind1), w2) \<Rightarrow> clear_loop baseDir name hFind1 w2))
      else (case FindNextFile hFind w of
              (None, w2) \<Rightarrow> (Inr (), FindClose hFind w2)
            | (Some (name, hFind1), w2) \<Rightarrow> clear_loop baseDir name hFind1 w2))"
  by pat_completeness auto
termination
  by (relation "measure (\<lambda>(b, f, h, w). length h)")
     (auto simp: FindNextFile_def take_fault_def Let_def split: if_splits list.splits)

declare clear_loop.simps [simp del]

definition local_cache_clear :: "world \<Rightarrow> (error + unit) \<times> world" where
  "local_cache_clear w =
     (case init w of
        (Inl e, w1) \<Rightarrow> (Inl e, w1)
      | (Inr u, w1) \<Rightarrow>
          (let baseDir = g_cache_dirname w1;
               searchPattern = baseDir @ backslash @ ''*'';
               (found, w2) = FindFirstFile searchPattern w1
           in case found of
                None \<Rightarrow> (Inr (), w2)
              | Some (fileName, hFind) \<Rightarrow> clear_loop baseDir fileName hFind w2))"

subsection \<open>OpenHandle\<close>

text \<open>
  The \<^verbatim>\<open>do ... while\<close> loop of \<^verbatim>\<open>OpenHandle\<close>; \<open>i\<close> is the loop counter before the
  attempt.
\<close>

function OpenHandle_loop :: "nat \<Rightarrow> path \<Rightarrow> access \<Rightarrow> disposition \<Rightarrow> world \<Rightarrow> HANDLE \<times> world" where
  "OpenHandle_loop i lpFileName acc disp w =
     (let (file, w1) = CreateFile lpFileName acc disp w;
          w2 = Sleep SLEEP_RETRY_MS w1
      in if file = None \<and> GetLastError w2 = ERROR_SHARING_VIOLATION \<and> i + 1 < MAX_RETRY
         then OpenHandle_loop (i + 1) lpFileName acc disp w2
         else (file, w2))"
  by pat_completeness auto
termination
  by (relation "measure (\<lambda>(i, p, a, d, w). MAX_RETRY - i)") auto

declare OpenHandle_loop.simps [simp del]

definition OpenHandle :: "path \<Rightarrow> access \<Rightarrow> disposition \<Rightarrow> world \<Rightarrow> HANDLE \<times> world" where
  "OpenHandle lpFileName acc disp w = OpenHandle_loop 0 lpFileName acc disp w"

subsection \<open>local\_cache\_add\<close>

text \<open>
  \<open>data_size\<close> is the \<^verbatim>\<open>size_t\<close> argument and \<open>data\<close> the buffer behind the pointer,
  \<open>None\<close> for \<^verbatim>\<open>nullptr\<close>. \<^verbatim>\<open>(DWORD)data_size\<close> keeps the low 32 bits.
\<close>

definition local_cache_add ::
  "string \<Rightarrow> time_t \<Rightarrow> nat \<Rightarrow> byte list option \<Rightarrow> world \<Rightarrow> (error + unit) \<times> world" where
  "local_cache_add ident expiry_arg data_size data w =
     (if ident = [] then (Inl Id_must_not_be_empty, w)
      else if data_size = 0 then (Inl Data_cannot_be_empty, w)
      else case data of
        None \<Rightarrow> (Inl Data_pointer_must_not_be_NULL, w)
      | Some bytes \<Rightarrow>
         (case init w of
            (Inl e, w1) \<Rightarrow> (Inl e, w1)
          | (Inr u, w1) \<Rightarrow>
             (let header = \<lparr>version = CACHE_V1, expiry = expiry_arg\<rparr>
              in case get_file_name ident w1 of
                   Inl e \<Rightarrow> (Inl e, w1)
                 | Inr filename \<Rightarrow>
                    (case OpenHandle filename GENERIC_WRITE CREATE_ALWAYS w1 of
                       (None, w2) \<Rightarrow> (Inl Create_file_failed, CloseHandle None w2)
                     | (Some file, w2) \<Rightarrow>
                        (case WriteFile file (header_bytes header) w2 of
                           (False, file1, w3) \<Rightarrow>
                             (Inl Header_write_failed, CloseHandle (Some file1) w3)
                         | (True, file1, w3) \<Rightarrow>
                            (case WriteFile file1 (take (data_size mod 2 ^ 32) bytes) w3 of
                               (False, file2, w4) \<Rightarrow>
                                 (Inl Data_write_failed, CloseHandle (Some file2) w4)
                             | (True, file2, w4) \<Rightarrow>
                                 (Inr (), CloseHandle (Some file2) w4)))))))"

subsection \<open>local\_cache\_get\<close>

text \<open>
  \<^verbatim>\<open>int datasize = size - sizeof(CacheEntryHeaderV1)\<close>: the \<^verbatim>\<open>DWORD\<close> is converted to
  the 64-bit \<^verbatim>\<open>size_t\<close>, the difference wraps there, and the conversion to the 32-bit
  \<^verbatim>\<open>int\<close> keeps the low 32 bits as a signed value.
\<close>

definition to_size_t :: "int \<Rightarrow> int" where
  "to_size_t x = x mod 2 ^ 64"

definition to_int32 :: "int \<Rightarrow> int" where
  "to_int32 x = (x + 2 ^ 31) mod 2 ^ 32 - 2 ^ 31"

definition to_dword :: "int \<Rightarrow> int" where
  "to_dword x = x mod 2 ^ 32"

definition compute_datasize :: "nat \<Rightarrow> int" where
  "compute_datasize fsize = to_int32 (to_size_t (int fsize - int sizeof_CacheEntryHeaderV1))"

text \<open>
  \<^verbatim>\<open>std::vector<uint8_t>(n)\<close> throws \<^verbatim>\<open>std::length_error\<close> when \<open>n\<close>, converted to
  \<^verbatim>\<open>size_t\<close>, is above \<^verbatim>\<open>max_size()\<close>.
\<close>

definition vector_max_size :: int where
  "vector_max_size = 2 ^ 63 - 1"

text \<open>
  The result is \<open>Inr None\<close> for \<^verbatim>\<open>nullptr\<close> (not found) and \<open>Inr (Some bytes)\<close> for
  the vector. The return value of \<^verbatim>\<open>ReadFile\<close> is not looked at: each read is followed
  by \<^verbatim>\<open>throw_if(GetLastError(), ...)\<close>.
\<close>

definition local_cache_get :: "string \<Rightarrow> world \<Rightarrow> (error + byte list option) \<times> world" where
  "local_cache_get ident w =
     (if ident = [] then (Inl Id_must_not_be_empty, w)
      else case init w of
        (Inl e, w1) \<Rightarrow> (Inl e, w1)
      | (Inr u, w1) \<Rightarrow>
         (case get_file_name ident w1 of
            Inl e \<Rightarrow> (Inl e, w1)
          | Inr filename \<Rightarrow>
             (case OpenHandle filename GENERIC_READ OPEN_EXISTING w1 of
                (None, w2) \<Rightarrow> (Inr None, w2)
              | (Some file, w2) \<Rightarrow>
                 (let (ok, headerbytes, file1, w3) = ReadFile file sizeof_CacheEntryHeaderV1 w2;
                      buf = store_bytes headerbytes (replicate sizeof_CacheEntryHeaderV1 0)
                  in if GetLastError w3 \<noteq> 0
                     then (Inl Header_read_failed, CloseHandle (Some file1) w3)
                     else
                      (let header = header_of_bytes buf
                       in if sint (expiry header) \<le> sint (time w3)
                          then (let w4 = CloseHandle (Some file1) w3;
                                    (deleted, w5) = DeleteFileW filename w4
                                in (Inr None, w5))
                          else
                           (let fsize = GetFileSize file1 w3;
                                datasize = compute_datasize fsize
                            in if to_size_t datasize > vector_max_size
                               then (Inl Vector_too_long, w3)
                               else
                                (let cache_entry0 = replicate (nat datasize) (0 :: byte);
                                     (ok2, databytes, file2, w6) = ReadFile file1 fsize w3;
                                     cache_entry = store_bytes databytes cache_entry0;
                                     dataread = int (length databytes)
                                 in if GetLastError w6 \<noteq> 0
                                    then (Inl Data_read_failed, CloseHandle (Some file2) w6)
                                    else if to_dword dataread \<noteq> to_dword datasize
                                    then (Inl Something_wrong_with_data,
                                          CloseHandle (Some file2) w6)
                                    else (Inr (Some cache_entry),
                                          CloseHandle (Some file2) w6))))))))"

subsection \<open>What a reader finds in a file\<close>

text \<open>
  \<open>stored_header c\<close> is the header \<^verbatim>\<open>local_cache_get\<close> works with when the file
  holds the bytes \<open>c\<close>: the first \<^verbatim>\<open>sizeof(CacheEntryHeaderV1)\<close> bytes of the file,
  stored into the zeroed \<^verbatim>\<open>buf\<close>.
\<close>

definition stored_header :: "byte list \<Rightarrow> CacheEntryHeaderV1" where
  "stored_header c =
     header_of_bytes (store_bytes (take sizeof_CacheEntryHeaderV1 c)
                                  (replicate sizeof_CacheEntryHeaderV1 0))"

subsection \<open>Example worlds\<close>

text \<open>
  A process that has not used the cache yet: \<^verbatim>\<open>LOCALAPPDATA\<close> is \<^verbatim>\<open>C:\<close>, the
  directory \<^verbatim>\<open>C:\<close> exists, the heap hands out zeroed buffers, no call is made to
  fail, the clock reads 1000. The provider stands in for SHA-256 with a digest that is
  the input itself, so the key \<^verbatim>\<open>k\<close> has the file name \<^verbatim>\<open>6b\<close>.
\<close>

definition example_world :: world where
  "example_world =
     \<lparr>environ = [''LOCALAPPDATA'' \<mapsto> ''C:''], fresh = (\<lambda>_. []), allocs = 0,
      bcrypt = (\<lambda>s. \<lparr>open_algorithm_provider = 0, get_object_length = 0,
                      alloc_hash_object = True, get_hash_length = 0, alloc_hash = True,
                      create_hash = 0, hash_data = 0, finish_hash = 0,
                      hash_bytes = map of_char s\<rparr>),
      dirs = [''C:''], files = [],
      last_error = 0, now = 1000, slept = 0, faults = (\<lambda>_. 0), fault_pos = 0,
      init_flag = False, g_cache_dirname = []\<rparr>"

definition cache_dir :: path where
  "cache_dir = ''C:'' @ backslash @ ''.az-dcap-client''"

definition entry_file :: path where
  "entry_file = cache_dir @ backslash @ ''6b''"

text \<open>The same process after initialisation, with one entry file of content \<open>c\<close>.\<close>

definition cached_world :: "byte list \<Rightarrow> world" where
  "cached_world c =
     example_world\<lparr>dirs := [cache_dir, ''C:''], files := [(entry_file, c)],
                   init_flag := True, g_cache_dirname := cache_dir\<rparr>"

text \<open>
  The cache directory with three entries, the second of them a subdirectory, and one
  file outside it.
\<close>

definition populated_world :: world where
  "populated_world =
     (cached_world [])
       \<lparr>dirs := [cache_dir @ backslash @ ''bb'', cache_dir, ''C:''],
        files := [(cache_dir @ backslash @ ''cc'', [3]), (cache_dir @ backslash @ ''aa'', [1]),
                  (''C:'' @ backslash @ ''other'', [4])]\<rparr>"

section \<open>Properties\<close>

subsection \<open>Auxiliary facts\<close>

lemma has_parent_dirs:
  "dirs w' = dirs w \<Longrightarrow> has_parent p w' = has_parent p w"
  by (simp add: has_parent_def)

lemma has_parent_update [simp]:
  "has_parent p (w\<lparr>last_error := e\<rparr>) = has_parent p w"
  "has_parent p (w\<lparr>fault_pos := n\<rparr>) = has_parent p w"
  "has_parent p (w\<lparr>slept := s\<rparr>) = has_parent p w"
  "has_parent p (w\<lparr>files := fs\<rparr>) = has_parent p w"
  "has_parent p (w\<lparr>now := t\<rparr>) = has_parent p w"
  "has_parent p (w\<lparr>faults := f\<rparr>) = has_parent p w"
  "has_parent p (w\<lparr>allocs := a\<rparr>) = has_parent p w"
  "has_parent p (w\<lparr>init_flag := b\<rparr>) = has_parent p w"
  "has_parent p (w\<lparr>g_cache_dirname := g\<rparr>) = has_parent p w"
  by (simp_all add: has_parent_def)

lemma CreateFile_last_error [simp]:
  "CreateFile p a d (w\<lparr>last_error := x\<rparr>) = CreateFile p a d w"
  by (simp add: CreateFile_def take_fault_def Let_def split: disposition.splits option.splits)

lemma CreateFile_sharing_violation:
  "CreateFile p a d w = (f, w1) \<Longrightarrow> last_error w1 = ERROR_SHARING_VIOLATION \<Longrightarrow>
     faults w (fault_pos w) = ERROR_SHARING_VIOLATION \<and> f = None \<and>
     w1 = w\<lparr>fault_pos := Suc (fault_pos w), last_error := ERROR_SHARING_VIOLATION\<rparr>"
  by (auto simp add: CreateFile_def take_fault_def Let_def winerror_defs split: disposition.splits option.splits if_splits)

lemma OpenHandle_loop_last_attempt:
  "i < MAX_RETRY \<Longrightarrow>
   \<exists>n\<ge>1. i + n \<le> MAX_RETRY \<and>
     (\<forall>j<n - 1. faults w (fault_pos w + j) = ERROR_SHARING_VIOLATION) \<and>
     OpenHandle_loop i p a d w =
       (case CreateFile p a d (w\<lparr>fault_pos := fault_pos w + (n - 1),
                                   slept := slept w + (n - 1) * SLEEP_RETRY_MS\<rparr>) of
          (f, w1) \<Rightarrow> (f, Sleep SLEEP_RETRY_MS w1)) \<and>
     (i + n < MAX_RETRY \<longrightarrow>
        \<not> (fst (OpenHandle_loop i p a d w) = None \<and>
           last_error (snd (OpenHandle_loop i p a d w)) = ERROR_SHARING_VIOLATION))"
proof (induction i p a d w rule: OpenHandle_loop.induct)
  case (1 i p a d w)
  obtain f w1 where cf: "CreateFile p a d w = (f, w1)" by (cases "CreateFile p a d w")
  show ?case
  proof (cases "f = None \<and> last_error w1 = ERROR_SHARING_VIOLATION \<and> i + 1 < MAX_RETRY")
    case False
    then have "OpenHandle_loop i p a d w = (f, Sleep SLEEP_RETRY_MS w1)"
      by (subst OpenHandle_loop.simps) (auto simp: cf Let_def GetLastError_def Sleep_def)
    with cf False 1(2) show ?thesis
      by (intro exI[of _ 1]) (auto simp: Sleep_def)
  next
    case True
    then have sv: "faults w (fault_pos w) = ERROR_SHARING_VIOLATION"
      and w1: "w1 = w\<lparr>fault_pos := Suc (fault_pos w), last_error := ERROR_SHARING_VIOLATION\<rparr>"
      using CreateFile_sharing_violation[OF cf] by auto
    let ?w2 = "Sleep SLEEP_RETRY_MS w1"
    have rec: "OpenHandle_loop i p a d w = OpenHandle_loop (i + 1) p a d ?w2"
      using True by (subst OpenHandle_loop.simps) (simp add: cf Let_def GetLastError_def Sleep_def)
    from True have "i + 1 < MAX_RETRY" by simp
    have cond: "f = None \<and> GetLastError ?w2 = ERROR_SHARING_VIOLATION \<and> i + 1 < MAX_RETRY"
      using True by (simp add: GetLastError_def Sleep_def)
    from 1(1)[OF refl cf[symmetric] refl cond \<open>i + 1 < MAX_RETRY\<close>]
    obtain n where n: "n \<ge> 1" "i + 1 + n \<le> MAX_RETRY"
      "\<forall>j<n - 1. faults ?w2 (fault_pos ?w2 + j) = ERROR_SHARING_VIOLATION"
      "OpenHandle_loop (i + 1) p a d ?w2 =
       (case CreateFile p a d (?w2\<lparr>fault_pos := fault_pos ?w2 + (n - 1),
                                   slept := slept ?w2 + (n - 1) * SLEEP_RETRY_MS\<rparr>) of
          (f, w1) \<Rightarrow> (f, Sleep SLEEP_RETRY_MS w1))"
      "i + 1 + n < MAX_RETRY \<longrightarrow>
        \<not> (fst (OpenHandle_loop (i + 1) p a d ?w2) = None \<and>
           last_error (snd (OpenHandle_loop (i + 1) p a d ?w2)) = ERROR_SHARING_VIOLATION)"
      by blast
    from n(1) obtain m where m: "n = Suc m" by (cases n) auto
    have w2eq: "?w2\<lparr>fault_pos := fault_pos ?w2 + (n - 1),
                                   slept := slept ?w2 + (n - 1) * SLEEP_RETRY_MS\<rparr>
        = (w\<lparr>fault_pos := fault_pos w + (Suc n - 1),
                                   slept := slept w + (Suc n - 1) * SLEEP_RETRY_MS\<rparr>)\<lparr>last_error := ERROR_SHARING_VIOLATION\<rparr>"
      unfolding m by (simp add: w1 Sleep_def)
    have all: "\<forall>j<Suc n - 1. faults w (fault_pos w + j) = ERROR_SHARING_VIOLATION"
    proof (intro allI impI)
      fix j assume "j < Suc n - 1"
      show "faults w (fault_pos w + j) = ERROR_SHARING_VIOLATION"
      proof (cases j)
        case 0 then show ?thesis using sv by simp
      next
        case (Suc k)
        with \<open>j < Suc n - 1\<close> have "k < n - 1" by simp
        with n(3) have "faults ?w2 (fault_pos ?w2 + k) = ERROR_SHARING_VIOLATION" by blast
        then show ?thesis by (simp add: Suc w1 Sleep_def)
      qed
    qed
    show ?thesis
      apply (rule exI[of _ "Suc n"])
      using n(1,2,5) all
      apply (simp only: rec n(4) w2eq CreateFile_last_error)
      apply simp
      done
  qed
qed

lemma CreateFile_fault:
  "faults w (fault_pos w) \<noteq> 0 \<Longrightarrow>
   CreateFile p a d w = (None, w\<lparr>fault_pos := Suc (fault_pos w), last_error := faults w (fault_pos w)\<rparr>)"
  by (simp add: CreateFile_def take_fault_def)

lemma OpenHandle_first_other:
  assumes k: "k < MAX_RETRY"
    and sv: "\<forall>j<k. faults w (fault_pos w + j) = ERROR_SHARING_VIOLATION"
    and other: "faults w (fault_pos w + k) \<noteq> ERROR_SHARING_VIOLATION"
  shows "OpenHandle p a d w =
     (case CreateFile p a d (w\<lparr>fault_pos := fault_pos w + k,
                                 slept := slept w + k * SLEEP_RETRY_MS\<rparr>) of
        (f, w1) \<Rightarrow> (f, Sleep SLEEP_RETRY_MS w1))"
proof -
  have "0 < MAX_RETRY" by (simp add: MAX_RETRY_def)
  from OpenHandle_loop_last_attempt[OF this, of w p a d]
  obtain n where n: "n \<ge> 1" "n \<le> MAX_RETRY"
     "\<forall>j<n - 1. faults w (fault_pos w + j) = ERROR_SHARING_VIOLATION"
     "OpenHandle_loop 0 p a d w =
       (case CreateFile p a d (w\<lparr>fault_pos := fault_pos w + (n - 1),
                                   slept := slept w + (n - 1) * SLEEP_RETRY_MS\<rparr>) of
          (f, w1) \<Rightarrow> (f, Sleep SLEEP_RETRY_MS w1))"
     "n < MAX_RETRY \<longrightarrow>
        \<not> (fst (OpenHandle_loop 0 p a d w) = None \<and>
           last_error (snd (OpenHandle_loop 0 p a d w)) = ERROR_SHARING_VIOLATION)"
    by auto
  have "\<not> k < n - 1" using n(3) other by blast
  moreover have "\<not> n - 1 < k"
  proof
    assume lt: "n - 1 < k"
    then have f: "faults w (fault_pos w + (n - 1)) = ERROR_SHARING_VIOLATION" using sv by blast
    let ?w = "w\<lparr>fault_pos := fault_pos w + (n - 1), slept := slept w + (n - 1) * SLEEP_RETRY_MS\<rparr>"
    have "faults ?w (fault_pos ?w) \<noteq> 0" using f by (simp add: ERROR_SHARING_VIOLATION_def)
    from CreateFile_fault[OF this, of p a d]
    have "fst (OpenHandle_loop 0 p a d w) = None \<and>
           last_error (snd (OpenHandle_loop 0 p a d w)) = ERROR_SHARING_VIOLATION"
      using f by (simp add: n(4) Sleep_def)
    moreover have "n < MAX_RETRY" using lt k n(1) by linarith
    ultimately show False using n(5) by blast
  qed
  ultimately have "n - 1 = k" by linarith
  then show ?thesis using n(4) by (simp add: OpenHandle_def)
qed

lemma OpenHandle_exhausted:
  assumes sv: "\<forall>j<MAX_RETRY. faults w (fault_pos w + j) = ERROR_SHARING_VIOLATION"
  shows "OpenHandle p a d w =
     (None, w\<lparr>fault_pos := fault_pos w + MAX_RETRY,
              slept := slept w + MAX_RETRY * SLEEP_RETRY_MS,
              last_error := ERROR_SHARING_VIOLATION\<rparr>)"
proof -
  have "0 < MAX_RETRY" by (simp add: MAX_RETRY_def)
  from OpenHandle_loop_last_attempt[OF this, of w p a d]
  obtain n where n: "n \<ge> 1" "n \<le> MAX_RETRY"
     "OpenHandle_loop 0 p a d w =
       (case CreateFile p a d (w\<lparr>fault_pos := fault_pos w + (n - 1),
                                   slept := slept w + (n - 1) * SLEEP_RETRY_MS\<rparr>) of
          (f, w1) \<Rightarrow> (f, Sleep SLEEP_RETRY_MS w1))"
     "n < MAX_RETRY \<longrightarrow>
        \<not> (fst (OpenHandle_loop 0 p a d w) = None \<and>
           last_error (snd (OpenHandle_loop 0 p a d w)) = ERROR_SHARING_VIOLATION)"
    by auto
  from n(1) obtain m where m: "n = Suc m" by (cases n) auto
  have f: "faults w (fault_pos w + m) = ERROR_SHARING_VIOLATION" using sv n(2) m by simp
  let ?w = "w\<lparr>fault_pos := fault_pos w + m, slept := slept w + m * SLEEP_RETRY_MS\<rparr>"
  have "faults ?w (fault_pos ?w) \<noteq> 0" using f by (simp add: ERROR_SHARING_VIOLATION_def)
  from CreateFile_fault[OF this, of p a d]
  have res: "OpenHandle_loop 0 p a d w =
     (None, w\<lparr>fault_pos := fault_pos w + n, slept := slept w + n * SLEEP_RETRY_MS,
              last_error := ERROR_SHARING_VIOLATION\<rparr>)"
    using f by (simp add: n(3) m Sleep_def)
  then have "\<not> n < MAX_RETRY" using n(4) by simp
  with n(2) have "n = MAX_RETRY" by simp
  with res show ?thesis by (simp add: OpenHandle_def)
qed

lemma OpenHandle_last_attempt:
  "\<exists>n s. OpenHandle p a d w =
     (case CreateFile p a d (w\<lparr>fault_pos := n, slept := s\<rparr>) of
        (f, w1) \<Rightarrow> (f, Sleep SLEEP_RETRY_MS w1))"
proof -
  have "0 < MAX_RETRY" by (simp add: MAX_RETRY_def)
  from OpenHandle_loop_last_attempt[OF this, of w p a d] show ?thesis
    unfolding OpenHandle_def by blast
qed

lemma OpenHandle_OPEN_EXISTING_Some:
  assumes "OpenHandle p a OPEN_EXISTING w = (Some h, w2)"
  shows "h = \<lparr>hpath = p, hpos = 0\<rparr> \<and> last_error w2 = 0 \<and> files w2 = files w \<and>
         now w2 = now w \<and> faults w2 = faults w \<and> map_of (files w) p \<noteq> None"
proof -
  from OpenHandle_last_attempt[of p a OPEN_EXISTING w] obtain n s where
    "OpenHandle p a OPEN_EXISTING w =
     (case CreateFile p a OPEN_EXISTING (w\<lparr>fault_pos := n, slept := s\<rparr>) of
        (f, w1) \<Rightarrow> (f, Sleep SLEEP_RETRY_MS w1))" by blast
  with assms show ?thesis
    by (auto simp: CreateFile_def take_fault_def Sleep_def Let_def split: if_splits option.splits)
qed

lemma get_expired_lemma:
  assumes "ident \<noteq> []" and "init w = (Inr (), w1)" and "get_file_name ident w1 = Inr fn"
    and "OpenHandle fn GENERIC_READ OPEN_EXISTING w1 = (Some h, w2)"
    and "faults w2 (fault_pos w2) = 0"
    and "map_of (files w1) fn = Some c"
    and "sint (expiry (stored_header c)) \<le> sint (now w1)"
  shows "local_cache_get ident w =
           (Inr None, snd (DeleteFileW fn (w2\<lparr>fault_pos := Suc (fault_pos w2)\<rparr>)))"
proof -
  from OpenHandle_OPEN_EXISTING_Some[OF assms(4)]
  have h: "h = \<lparr>hpath = fn, hpos = 0\<rparr>" and le: "last_error w2 = 0"
    and fs: "files w2 = files w1" and nw: "now w2 = now w1" by auto
  have rd: "ReadFile h sizeof_CacheEntryHeaderV1 w2 =
     (True, take sizeof_CacheEntryHeaderV1 c,
      h\<lparr>hpos := length (take sizeof_CacheEntryHeaderV1 c)\<rparr>, w2\<lparr>fault_pos := Suc (fault_pos w2)\<rparr>)"
    using assms(5,6) by (simp add: ReadFile_def take_fault_def Let_def h fs)
  show ?thesis
    using assms(1,7)
    by (simp add: local_cache_get_def assms(2,3,4) rd GetLastError_def le time_def nw
        CloseHandle_def stored_header_def Let_def split: prod.splits)
qed

lemma bit_le_word:
  "bit (le_word bs :: 'a::len word) n \<longleftrightarrow>
     n < LENGTH('a) \<and> n div 8 < length bs \<and> bit (bs ! (n div 8)) (n mod 8)"
proof (induction bs arbitrary: n)
  case Nil
  then show ?case by (simp add: le_word_def)
next
  case (Cons b bs)
  have unf: "le_word (b # bs) = (ucast b OR push_bit 8 (le_word bs) :: 'a word)"
    by (simp add: le_word_def)
  show ?case
  proof (cases "n < 8")
    case True
    then show ?thesis
      by (auto simp: unf bit_simps dest: bit_imp_le_length)
  next
    case False
    then have n: "n div 8 = Suc ((n - 8) div 8)" "n mod 8 = (n - 8) mod 8"
      by (simp_all add: le_div_geq le_mod_geq)
    show ?thesis using False
      by (auto simp: unf bit_simps Cons.IH n dest: bit_imp_le_length)
  qed
qed

lemma le_word_le_bytes:
  "LENGTH('a) \<le> 8 * k \<Longrightarrow> le_word (le_bytes k (x :: 'a::len word)) = x"
proof (rule bit_word_eqI)
  fix n assume k: "LENGTH('a) \<le> 8 * k" and n: "n < LENGTH('a)"
  then have "n div 8 < k" by (simp add: less_mult_imp_div_less mult.commute)
  then show "bit (le_word (le_bytes k x) :: 'a word) n = bit x n"
    using n by (auto simp: bit_le_word le_bytes_def bit_simps)
qed

lemma length_le_bytes [simp]: "length (le_bytes n x) = n"
  by (simp add: le_bytes_def)

lemma length_header_bytes [simp]: "length (header_bytes hdr) = sizeof_CacheEntryHeaderV1"
  by (simp add: header_bytes_def sizeof_CacheEntryHeaderV1_def offsetof_expiry_def)

lemma stored_header_header_bytes:
  "stored_header (header_bytes hdr @ rest) = hdr"
proof -
  have "expiry (stored_header (header_bytes hdr @ rest)) = expiry hdr"
    by (simp add: stored_header_def store_bytes_def header_of_bytes_def
        offsetof_expiry_def header_bytes_def sizeof_CacheEntryHeaderV1_def le_word_le_bytes)
  moreover have "version (stored_header (header_bytes hdr @ rest)) = version hdr"
    by (simp add: stored_header_def store_bytes_def header_of_bytes_def offsetof_version_def
        offsetof_expiry_def header_bytes_def sizeof_CacheEntryHeaderV1_def le_word_le_bytes)
  ultimately show ?thesis by simp
qed

lemma init_Inr:
  "init w = (Inr (), w1) \<Longrightarrow> init_flag w1"
  by (auto simp: init_def split: if_splits prod.splits sum.splits)

lemma init_flagged [simp]:
  "init_flag w \<Longrightarrow> init w = (Inr (), w)"
  by (simp add: init_def)

lemma OpenHandle_CREATE_ALWAYS_Some:
  assumes "OpenHandle p a CREATE_ALWAYS w = (Some h, w2)"
  shows "h = \<lparr>hpath = p, hpos = 0\<rparr> \<and> files w2 = AList.update p [] (files w) \<and>
         faults w2 = faults w \<and> init_flag w2 = init_flag w \<and>
         g_cache_dirname w2 = g_cache_dirname w \<and> bcrypt w2 = bcrypt w"
proof -
  from OpenHandle_last_attempt[of p a CREATE_ALWAYS w] obtain n s where
    "OpenHandle p a CREATE_ALWAYS w =
     (case CreateFile p a CREATE_ALWAYS (w\<lparr>fault_pos := n, slept := s\<rparr>) of
        (f, w1) \<Rightarrow> (f, Sleep SLEEP_RETRY_MS w1))" by blast
  with assms show ?thesis
    by (auto simp: CreateFile_def take_fault_def Sleep_def Let_def split: if_splits option.splits)
qed

lemma WriteFile_True:
  assumes "WriteFile h bs w = (True, h', w')"
  shows "\<exists>c. map_of (files w) (hpath h) = Some c \<and>
         files w' = AList.update (hpath h) (take (hpos h) c @ bs @ drop (hpos h + length bs) c) (files w) \<and>
         h' = h\<lparr>hpos := hpos h + length bs\<rparr> \<and>
         faults w' = faults w \<and> init_flag w' = init_flag w \<and>
         g_cache_dirname w' = g_cache_dirname w \<and> bcrypt w' = bcrypt w"
  using assms
  by (auto simp: WriteFile_def take_fault_def Let_def split: if_splits option.splits)

lemma get_file_name_cong:
  "g_cache_dirname w' = g_cache_dirname w \<Longrightarrow> bcrypt w' = bcrypt w \<Longrightarrow>
   get_file_name ident w' = get_file_name ident w"
  by (simp add: get_file_name_def sha256_def split: sum.splits prod.splits)

lemma add_success:
  assumes "local_cache_add ident e n (Some bytes) w = (Inr (), w')"
  shows "\<exists>fn. init_flag w' \<and> get_file_name ident w' = Inr fn \<and>
           map_of (files w') fn =
             Some (header_bytes \<lparr>version = CACHE_V1, expiry = e\<rparr> @ take (n mod 2 ^ 32) bytes)"
proof -
  let ?hdr = "header_bytes \<lparr>version = CACHE_V1, expiry = e\<rparr>"
  from assms obtain w1 fn fh w2 file1 w3 file2 where
    i: "init w = (Inr (), w1)" and g: "get_file_name ident w1 = Inr fn"
    and o: "OpenHandle fn GENERIC_WRITE CREATE_ALWAYS w1 = (Some fh, w2)"
    and w1: "WriteFile fh ?hdr w2 = (True, file1, w3)"
    and w2: "WriteFile file1 (take (n mod 2 ^ 32) bytes) w3 = (True, file2, w')"
    by (auto simp: local_cache_add_def Let_def CloseHandle_def
        split: if_splits prod.splits sum.splits option.splits bool.splits)
  note O = OpenHandle_CREATE_ALWAYS_Some[OF o]
  from WriteFile_True[OF w1] O
  have f3: "files w3 = AList.update fn ?hdr (AList.update fn [] (files w1))"
    and h1: "file1 = \<lparr>hpath = fn, hpos = sizeof_CacheEntryHeaderV1\<rparr>"
    and k3: "init_flag w3 = init_flag w1" "g_cache_dirname w3 = g_cache_dirname w1" "bcrypt w3 = bcrypt w1"
    by (auto simp: update_conv')
  from WriteFile_True[OF w2] f3 h1
  have f4: "map_of (files w') fn = Some (?hdr @ take (n mod 2 ^ 32) bytes)"
    and k4: "init_flag w' = init_flag w3" "g_cache_dirname w' = g_cache_dirname w3" "bcrypt w' = bcrypt w3"
    by (auto simp: update_conv')
  have "get_file_name ident w' = Inr fn"
    using g get_file_name_cong[of w' w1 ident] k3 k4 by simp
  with f4 init_Inr[OF i] k3 k4 show ?thesis by simp
qed

lemma compute_datasize_payload:
  "n < 2 ^ 31 \<Longrightarrow> compute_datasize (sizeof_CacheEntryHeaderV1 + n) = int n"
  by (simp add: compute_datasize_def to_int32_def to_size_t_def)

lemma get_valid_lemma:
  assumes "ident \<noteq> []" and "init w = (Inr (), w1)" and "get_file_name ident w1 = Inr fn"
    and "OpenHandle fn GENERIC_READ OPEN_EXISTING w1 = (Some h, w2)"
    and "faults w2 (fault_pos w2) = 0" and "faults w2 (Suc (fault_pos w2)) = 0"
    and "map_of (files w1) fn = Some (header_bytes hdr @ payload)"
    and "sint (now w1) < sint (expiry hdr)"
    and "length payload < 2 ^ 31"
  shows "fst (local_cache_get ident w) = Inr (Some payload)"
proof -
  let ?c = "header_bytes hdr @ payload"
  let ?w3 = "w2\<lparr>fault_pos := Suc (fault_pos w2)\<rparr>"
  let ?h1 = "\<lparr>hpath = fn, hpos = sizeof_CacheEntryHeaderV1\<rparr>"
  from OpenHandle_OPEN_EXISTING_Some[OF assms(4)]
  have h: "h = \<lparr>hpath = fn, hpos = 0\<rparr>" and le: "last_error w2 = 0"
    and fs: "files w2 = files w1" and nw: "now w2 = now w1" by auto
  have rd: "ReadFile h sizeof_CacheEntryHeaderV1 w2 = (True, header_bytes hdr, ?h1, ?w3)"
    using assms(5,7) by (simp add: ReadFile_def take_fault_def Let_def h fs)
  have sz: "GetFileSize ?h1 ?w3 = sizeof_CacheEntryHeaderV1 + length payload"
    using assms(7,9) by (simp add: GetFileSize_def fs sizeof_CacheEntryHeaderV1_def)
  have rd2: "ReadFile ?h1 (sizeof_CacheEntryHeaderV1 + length payload) ?w3 =
     (True, payload, \<lparr>hpath = fn, hpos = sizeof_CacheEntryHeaderV1 + length payload\<rparr>,
      w2\<lparr>fault_pos := Suc (Suc (fault_pos w2))\<rparr>)"
    using assms(6,7) by (simp add: ReadFile_def take_fault_def Let_def fs)
  have hd: "header_of_bytes (store_bytes (header_bytes hdr) (replicate sizeof_CacheEntryHeaderV1 0)) = hdr"
    using stored_header_header_bytes[of hdr "[]"] by (simp add: stored_header_def)
  have hd2: "header_of_bytes (header_bytes hdr) = hdr"
    using hd by (simp add: store_bytes_def)
  have ds: "compute_datasize (sizeof_CacheEntryHeaderV1 + length payload) = int (length payload)"
    using assms(9) by (rule compute_datasize_payload)
  have vs: "\<not> to_size_t (int (length payload)) > vector_max_size"
    using assms(9) by (simp add: to_size_t_def vector_max_size_def)
  show ?thesis
    using assms(1,8) vs
    by (simp add: local_cache_get_def assms(2,3,4) rd hd2 GetLastError_def le time_def nw
        CloseHandle_def sz ds rd2 store_bytes_def Let_def)
qed

lemmas eval_defs = take_fault_def GetLastError_def new_TCHAR_def GetEnvironmentVariable_def
  CreateDirectory_def CreateFile_def Sleep_def CloseHandle_def WriteFile_def ReadFile_def
  GetFileSize_def DeleteFileW_def time_def FindFirstFile_def FindNextFile_def FindClose_def
  has_parent_def in_dir_def entry_name_def dir_entries_def
  make_dir_def init_callback_def init_def sha256_def get_file_name_def
  local_cache_clear_def OpenHandle_def OpenHandle_loop.simps local_cache_add_def local_cache_get_def
  header_bytes_def header_of_bytes_def store_bytes_def le_bytes_def le_word_def
  NT_SUCCESS_def hex_byte_def hex_digit_def compute_datasize_def to_size_t_def to_int32_def to_dword_def
  vector_max_size_def sizeof_CacheEntryHeaderV1_def offsetof_expiry_def offsetof_version_def
  CACHE_V1_def MAX_RETRY_def SLEEP_RETRY_MS_def backslash_def Let_def winerror_defs

lemmas example_defs = example_world_def cached_world_def cache_dir_def entry_file_def
  populated_world_def

lemma OpenHandle_OPEN_EXISTING_nominal:
  assumes k: "k < MAX_RETRY"
    and sv: "\<forall>j<k. faults w (fault_pos w + j) = ERROR_SHARING_VIOLATION"
    and ok: "faults w (fault_pos w + k) = 0"
    and f: "map_of (files w) p = Some c"
  shows "OpenHandle p a OPEN_EXISTING w =
     (Some \<lparr>hpath = p, hpos = 0\<rparr>,
      w\<lparr>fault_pos := fault_pos w + k + 1, slept := slept w + (k + 1) * SLEEP_RETRY_MS,
        last_error := 0\<rparr>)"
proof -
  have "faults w (fault_pos w + k) \<noteq> ERROR_SHARING_VIOLATION"
    using ok by (simp add: ERROR_SHARING_VIOLATION_def)
  from OpenHandle_first_other[OF k sv this, of p a OPEN_EXISTING] ok f
  show ?thesis
    by (simp add: CreateFile_def take_fault_def Sleep_def Let_def)
qed

lemma replicate_6: "replicate 6 x = [x, x, x, x, x, x]"
  by (simp add: numeral_eq_Suc)

lemma DeleteFileW_nominal:
  "faults w (fault_pos w) = 0 \<Longrightarrow> map_of (files w) p = Some c \<Longrightarrow>
   DeleteFileW p w = (True, w\<lparr>fault_pos := Suc (fault_pos w), files := AList.delete p (files w)\<rparr>)"
  by (simp add: DeleteFileW_def take_fault_def)


lemma le_word_zeros: "(le_word (replicate n 0) :: 'a::len word) = 0"
  by (rule bit_word_eqI) (simp add: bit_le_word)

lemma stored_expiry_unread:
  assumes "length c \<le> offsetof_expiry"
  shows "expiry (stored_header c) = 0"
proof -
  have "drop offsetof_expiry (store_bytes (take sizeof_CacheEntryHeaderV1 c)
          (replicate sizeof_CacheEntryHeaderV1 0)) = replicate 8 0"
    using assms
    by (simp add: store_bytes_def offsetof_expiry_def sizeof_CacheEntryHeaderV1_def min_def)
  then show ?thesis
    by (simp add: stored_header_def header_of_bytes_def le_word_zeros)
qed

lemma mod_of_negative:
  fixes x m :: int
  assumes "- m \<le> x" and "x < 0"
  shows "x mod m = x + m"
proof -
  have "x mod m = (x + m) mod m" by simp
  also have "\<dots> = x + m" using assms by (intro mod_pos_pos_trivial) simp_all
  finally show ?thesis .
qed

lemma compute_datasize_short:
  assumes "n < sizeof_CacheEntryHeaderV1"
  shows "to_size_t (compute_datasize n) > vector_max_size"
proof -
  let ?x = "int n - 16"
  have x: "- 16 \<le> ?x" "?x < 0"
    using assms by (simp_all add: sizeof_CacheEntryHeaderV1_def)
  have 1: "?x mod 2 ^ 64 = ?x + 2 ^ 64"
    using x by (intro mod_of_negative) simp_all
  have "(?x + 2 ^ 64 + 2 ^ 31) mod 2 ^ 32 = (?x + 2 ^ 31 + 2 ^ 32 * 2 ^ 32) mod 2 ^ 32"
    by (simp add: algebra_simps)
  also have "\<dots> = (?x + 2 ^ 31) mod 2 ^ 32"
    by (rule mod_mult_self2)
  also have "\<dots> = ?x + 2 ^ 31"
    using x by (intro mod_pos_pos_trivial) simp_all
  finally have 2: "(?x + 2 ^ 64 + 2 ^ 31) mod 2 ^ 32 = ?x + 2 ^ 31" .
  have "compute_datasize n = (?x mod 2 ^ 64 + 2 ^ 31) mod 2 ^ 32 - 2 ^ 31"
    by (simp only: compute_datasize_def to_int32_def to_size_t_def
        sizeof_CacheEntryHeaderV1_def of_nat_numeral)
  also have "\<dots> = (?x + 2 ^ 64 + 2 ^ 31) mod 2 ^ 32 - 2 ^ 31" by (simp only: 1)
  also have "\<dots> = ?x + 2 ^ 31 - 2 ^ 31" by (simp only: 2)
  finally have 3: "compute_datasize n = ?x" by simp
  show ?thesis
    unfolding 3 to_size_t_def 1 vector_max_size_def using x by simp
qed

lemma funpow_push_bit_zero [simp]: "(push_bit k ^^ n) (0 :: 'a::len word) = 0"
  by (induction n) simp_all

lemma get_short_unexpired_lemma:
  assumes "ident \<noteq> []" and "init w = (Inr (), w1)" and "get_file_name ident w1 = Inr fn"
    and "OpenHandle fn GENERIC_READ OPEN_EXISTING w1 = (Some h, w2)"
    and "faults w2 (fault_pos w2) = 0"
    and "map_of (files w1) fn = Some c"
    and "length c < sizeof_CacheEntryHeaderV1"
    and "sint (now w1) < sint (expiry (stored_header c))"
  shows "local_cache_get ident w = (Inl Vector_too_long, w2\<lparr>fault_pos := Suc (fault_pos w2)\<rparr>)"
proof -
  let ?w3 = "w2\<lparr>fault_pos := Suc (fault_pos w2)\<rparr>"
  from OpenHandle_OPEN_EXISTING_Some[OF assms(4)]
  have h: "h = \<lparr>hpath = fn, hpos = 0\<rparr>" and le: "last_error w2 = 0"
    and fs: "files w2 = files w1" and nw: "now w2 = now w1" by auto
  have rd: "ReadFile h sizeof_CacheEntryHeaderV1 w2 =
     (True, take sizeof_CacheEntryHeaderV1 c,
      h\<lparr>hpos := length (take sizeof_CacheEntryHeaderV1 c)\<rparr>, ?w3)"
    using assms(5,6) by (simp add: ReadFile_def take_fault_def Let_def h fs)
  have sz: "GetFileSize (h\<lparr>hpos := length (take sizeof_CacheEntryHeaderV1 c)\<rparr>) ?w3 = length c"
    using assms(6,7) by (simp add: GetFileSize_def fs h sizeof_CacheEntryHeaderV1_def)
  show ?thesis
    using assms(1,8) compute_datasize_short[OF assms(7)]
    by (simp add: local_cache_get_def assms(2,3,4) rd GetLastError_def le time_def nw
        sz stored_header_def Let_def del: length_take)
qed



lemma init_error_propagates:
  assumes "fst (init w) = Inl e"
  shows "fst (local_cache_clear w) = Inl e"
    and "ident \<noteq> [] \<Longrightarrow> fst (local_cache_get ident w) = Inl e"
    and "ident \<noteq> [] \<Longrightarrow> n \<noteq> 0 \<Longrightarrow> fst (local_cache_add ident x n (Some bs) w) = Inl e"
  using assms
  by (cases "init w"; cases "fst (init w)";
      simp add: local_cache_clear_def local_cache_get_def local_cache_add_def)+

lemma init_path_not_found:
  assumes "environ w ''LOCALAPPDATA'' = Some base" and "base \<noteq> []" and "\<not> init_flag w"
    and "faults w (fault_pos w) = ERROR_PATH_NOT_FOUND"
  shows "init w = (Inl Path_not_found,
           snd (CreateDirectory (base @ backslash @ ''.az-dcap-client'')
             (snd (GetEnvironmentVariable ''AZDCAP_CACHE'' (fresh w (Suc (allocs w)))
                    (w\<lparr>allocs := Suc (Suc (allocs w))\<rparr>)))))"
  using assms
  by (simp add: init_def init_callback_def new_TCHAR_def GetEnvironmentVariable_def Let_def
      make_dir_def CreateDirectory_def take_fault_def GetLastError_def winerror_defs
      split: option.splits)

text \<open>
  The resolution order of \<^verbatim>\<open>init_callback\<close>: the primary value wins whenever it is
  defined and not empty, and the rest of the order is the documented one when the two
  fresh buffers happen to start with a zero character.
\<close>

lemma resolution_primary:
  assumes "environ w ''LOCALAPPDATA'' = Some v" and "v \<noteq> []"
    and "fst (init_callback w) = Inr ()"
  shows "g_cache_dirname (snd (init_callback w)) = v @ backslash @ ''.az-dcap-client''"
  using assms
  by (auto simp: init_callback_def new_TCHAR_def GetEnvironmentVariable_def Let_def
      split: option.splits prod.splits sum.splits)

lemma resolution_order_zeroed_buffers:
  assumes "fresh w (allocs w) = []" and "fresh w (Suc (allocs w)) = []"
  shows "(\<exists>v. environ w ''LOCALAPPDATA'' = Some v \<and> v \<noteq> [] \<and>
            (fst (init_callback w) = Inr () \<longrightarrow>
               g_cache_dirname (snd (init_callback w)) = v @ backslash @ ''.az-dcap-client'')) \<or>
         ((environ w ''LOCALAPPDATA'' = None \<or> environ w ''LOCALAPPDATA'' = Some []) \<and>
          (\<exists>v. environ w ''AZDCAP_CACHE'' = Some v \<and> v \<noteq> [] \<and>
            (fst (init_callback w) = Inr () \<longrightarrow>
               g_cache_dirname (snd (init_callback w)) = v @ backslash @ ''.az-dcap-client''))) \<or>
         ((environ w ''LOCALAPPDATA'' = None \<or> environ w ''LOCALAPPDATA'' = Some []) \<and>
          (environ w ''AZDCAP_CACHE'' = None \<or> environ w ''AZDCAP_CACHE'' = Some []) \<and>
          fst (init_callback w) = Inl Environment_not_defined)"
  using assms
  by (auto simp: init_callback_def new_TCHAR_def GetEnvironmentVariable_def Let_def
      split: option.splits prod.splits sum.splits)
















lemma get_unexpired_lemma:
  assumes "ident \<noteq> []" and "init w = (Inr (), w1)" and "get_file_name ident w1 = Inr fn"
    and "OpenHandle fn GENERIC_READ OPEN_EXISTING w1 = (Some h, w2)"
    and "faults w2 (fault_pos w2) = 0" and "faults w2 (Suc (fault_pos w2)) = 0"
    and "map_of (files w1) fn = Some c"
    and "sizeof_CacheEntryHeaderV1 \<le> length c"
    and "length c < 2 ^ 31 + sizeof_CacheEntryHeaderV1"
    and "sint (now w1) < sint (expiry (stored_header c))"
  shows "fst (local_cache_get ident w) = Inr (Some (drop sizeof_CacheEntryHeaderV1 c))"
proof -
  let ?n = "length c - sizeof_CacheEntryHeaderV1"
  let ?w3 = "w2\<lparr>fault_pos := Suc (fault_pos w2)\<rparr>"
  let ?h1 = "\<lparr>hpath = fn, hpos = sizeof_CacheEntryHeaderV1\<rparr>"
  have n: "?n < 2 ^ 31" and len: "length c = sizeof_CacheEntryHeaderV1 + ?n"
    using assms(8,9) by simp_all
  from OpenHandle_OPEN_EXISTING_Some[OF assms(4)]
  have h: "h = \<lparr>hpath = fn, hpos = 0\<rparr>" and le: "last_error w2 = 0"
    and fs: "files w2 = files w1" and nw: "now w2 = now w1" by auto
  have rd: "ReadFile h sizeof_CacheEntryHeaderV1 w2 =
      (True, take sizeof_CacheEntryHeaderV1 c, ?h1, ?w3)"
    using assms(5,7,8) by (simp add: ReadFile_def take_fault_def Let_def h fs min_def)
  have "length c < 2 ^ 32"
    using assms(9) by (simp add: sizeof_CacheEntryHeaderV1_def)
  then have sz: "GetFileSize ?h1 ?w3 = length c"
    using assms(7) by (simp add: GetFileSize_def fs)
  have rd2: "ReadFile ?h1 (length c) ?w3 =
     (True, drop sizeof_CacheEntryHeaderV1 c,
      \<lparr>hpath = fn, hpos = sizeof_CacheEntryHeaderV1 + ?n\<rparr>,
      w2\<lparr>fault_pos := Suc (Suc (fault_pos w2))\<rparr>)"
    using assms(6,7) by (simp add: ReadFile_def take_fault_def Let_def fs)
  have ds: "compute_datasize (length c) = int ?n"
    using compute_datasize_payload[OF n] len by simp
  have vs: "\<not> to_size_t (int ?n) > vector_max_size"
    using n by (simp add: to_size_t_def vector_max_size_def)
  have st: "store_bytes (drop sizeof_CacheEntryHeaderV1 c) (replicate ?n 0)
      = drop sizeof_CacheEntryHeaderV1 c"
    by (simp add: store_bytes_def)
  have hd: "header_of_bytes (store_bytes (take sizeof_CacheEntryHeaderV1 c)
      (replicate sizeof_CacheEntryHeaderV1 0)) = stored_header c"
    by (simp add: stored_header_def)
  show ?thesis
    using assms(1,10) vs
    by (simp add: local_cache_get_def assms(2,3,4) rd hd GetLastError_def le time_def nw
        CloseHandle_def sz ds rd2 st Let_def del: length_take)
qed

subsection \<open>The claims\<close>

text \<open>
  Claim C1, amended. A successful \<^verbatim>\<open>local_cache_add(key, expiry, payload)\<close> with a
  non-empty key and a non-empty payload of fewer than \<open>2\<^sup>3\<^sup>1\<close> bytes, followed by
  \<^verbatim>\<open>local_cache_get(key)\<close>, returns exactly the payload, byte for byte, when the
  clock that \<^verbatim>\<open>get\<close> reads is still before the expiry and the environment fails
  none of the calls of \<^verbatim>\<open>get\<close> (its open may meet \<open>k < MAX_RETRY\<close> sharing violations
  first). The bound on the payload cannot be dropped: \<^verbatim>\<open>add\<close> hands
  \<^verbatim>\<open>(DWORD)data_size\<close> to \<^verbatim>\<open>WriteFile\<close>, and \<^verbatim>\<open>get\<close> holds the length in an
  \<^verbatim>\<open>int\<close>.
\<close>

theorem add_then_get_roundtrip:
  assumes "ident \<noteq> []" and "payload \<noteq> []" and "length payload < 2 ^ 31"
    and "local_cache_add ident e (length payload) (Some payload) w = (Inr (), w1)"
    and "sint t < sint e"
    and "k < MAX_RETRY"
    and "\<forall>j<k. faults w1 (fault_pos w1 + j) = ERROR_SHARING_VIOLATION"
    and "faults w1 (fault_pos w1 + k) = 0"
    and "faults w1 (fault_pos w1 + k + 1) = 0"
    and "faults w1 (fault_pos w1 + k + 2) = 0"
  shows "fst (local_cache_get ident (w1\<lparr>now := t\<rparr>)) = Inr (Some payload)"
proof -
  let ?hdr = "\<lparr>version = CACHE_V1, expiry = e\<rparr>"
  let ?w = "w1\<lparr>now := t\<rparr>"
  from add_success[OF assms(4)] assms(3) obtain fn where
    fl: "init_flag w1" and g: "get_file_name ident w1 = Inr fn"
    and c: "map_of (files w1) fn = Some (header_bytes ?hdr @ payload)"
    by auto
  have i: "init ?w = (Inr (), ?w)" using fl by simp
  have g': "get_file_name ident ?w = Inr fn"
    using g get_file_name_cong[of ?w w1 ident] by simp
  have c': "map_of (files ?w) fn = Some (header_bytes ?hdr @ payload)" using c by simp
  let ?w2 = "?w\<lparr>fault_pos := fault_pos ?w + k + 1,
        slept := slept ?w + (k + 1) * SLEEP_RETRY_MS, last_error := 0\<rparr>"
  have o: "OpenHandle fn GENERIC_READ OPEN_EXISTING ?w = (Some \<lparr>hpath = fn, hpos = 0\<rparr>, ?w2)"
    using assms(7,8) by (intro OpenHandle_OPEN_EXISTING_nominal[OF assms(6) _ _ c']) simp_all
  show ?thesis
    using assms(5,9,10)
    by (intro get_valid_lemma[OF assms(1) i g' o _ _ c' _ assms(3)]) simp_all
qed

theorem add_then_get_roundtrip_witness:
  "fst (local_cache_get ''k''
      ((snd (local_cache_add ''k'' 2000 3 (Some [1, 2, 3]) example_world))\<lparr>now := 1999\<rparr>))
     = Inr (Some [1, 2, 3])"
  using add_then_get_roundtrip [of "''k''" "[1, 2, 3]" 2000 example_world
      "snd (local_cache_add ''k'' 2000 3 (Some [1, 2, 3]) example_world)" 1999 0]
  by (simp add: example_defs eval_defs upt_rec)

text \<open>
  The claim as stated, for every non-empty payload, fails for a payload of
  \<open>2\<^sup>3\<^sup>2 + 1\<close> bytes: \<^verbatim>\<open>(DWORD)data_size\<close> is 1, \<^verbatim>\<open>add\<close> succeeds having
  written the header and one byte of the payload, and \<^verbatim>\<open>get\<close> returns that one
  byte.
\<close>

theorem add_then_get_roundtrip_counterexample:
  "''k'' \<noteq> [] \<and> replicate (2 ^ 32 + 1) (0 :: byte) \<noteq> [] \<and>
   sint (now example_world) < sint (2000 :: time_t) \<and>
   fst (local_cache_add ''k'' 2000 (length (replicate (2 ^ 32 + 1) (0 :: byte)))
          (Some (replicate (2 ^ 32 + 1) 0)) example_world) = Inr () \<and>
   fst (local_cache_get ''k''
          (snd (local_cache_add ''k'' 2000 (length (replicate (2 ^ 32 + 1) (0 :: byte)))
                  (Some (replicate (2 ^ 32 + 1) 0)) example_world))) = Inr (Some [0]) \<and>
   length [0 :: byte] \<noteq> length (replicate (2 ^ 32 + 1) (0 :: byte))"
  by (simp add: example_defs eval_defs upt_rec)

text \<open>
  Claim C2, amended. The file that a successful \<^verbatim>\<open>local_cache_add\<close> leaves is the
  object representation of \<^verbatim>\<open>CacheEntryHeaderV1\<close> followed by the bytes handed to the
  second \<^verbatim>\<open>WriteFile\<close>, which are the first \<^verbatim>\<open>(DWORD)data_size\<close> bytes of the data
  buffer: the 2-byte version is at offset 0, the 8-byte expiry at offset 8, and the data
  start at offset 16 = \<^verbatim>\<open>sizeof(CacheEntryHeaderV1)\<close>. When \<^verbatim>\<open>data_size\<close> is below
  \<open>2\<^sup>3\<^sup>2\<close> and the buffer holds \<^verbatim>\<open>data_size\<close> bytes, the data are the whole payload
  and the payload length is the file size minus 16. \<^verbatim>\<open>local_cache_get\<close> derives the
  payload the same way: for a non-empty key and an entry file of at least 16 and fewer
  than \<open>2\<^sup>3\<^sup>1 + 16\<close> bytes whose stored expiry is after the current time, when the open
  succeeds and the environment fails neither of the two reads, it returns the bytes of
  the file from offset 16 on, file size minus 16 of them.
\<close>

theorem entry_file_layout:
  "(local_cache_add ident e data_size (Some bytes) w = (Inr (), w1) \<longrightarrow>
      (\<exists>fn c. get_file_name ident w1 = Inr fn \<and> map_of (files w1) fn = Some c \<and>
         c = header_bytes \<lparr>version = CACHE_V1, expiry = e\<rparr> @ take (data_size mod 2 ^ 32) bytes \<and>
         take 2 (drop offsetof_version c) = le_bytes 2 CACHE_V1 \<and>
         take 8 (drop offsetof_expiry c) = le_bytes 8 e \<and>
         drop sizeof_CacheEntryHeaderV1 c = take (data_size mod 2 ^ 32) bytes \<and>
         offsetof_version = 0 \<and> offsetof_expiry = 8 \<and> sizeof_CacheEntryHeaderV1 = 16 \<and>
         (data_size < 2 ^ 32 \<and> data_size \<le> length bytes \<longrightarrow>
            drop sizeof_CacheEntryHeaderV1 c = take data_size bytes \<and>
            data_size = length c - sizeof_CacheEntryHeaderV1))) \<and>
   (key \<noteq> [] \<and> init v = (Inr (), v1) \<and> get_file_name key v1 = Inr path \<and>
    map_of (files v1) path = Some content \<and>
    sizeof_CacheEntryHeaderV1 \<le> length content \<and>
    length content < 2 ^ 31 + sizeof_CacheEntryHeaderV1 \<and>
    OpenHandle path GENERIC_READ OPEN_EXISTING v1 = (Some h, v2) \<and>
    faults v2 (fault_pos v2) = 0 \<and> faults v2 (Suc (fault_pos v2)) = 0 \<and>
    sint (now v1) < sint (expiry (stored_header content)) \<longrightarrow>
      (\<exists>payload. fst (local_cache_get key v) = Inr (Some payload) \<and>
         payload = drop sizeof_CacheEntryHeaderV1 content \<and>
         length payload = length content - sizeof_CacheEntryHeaderV1))"
proof (intro conjI impI)
  let ?hdr = "header_bytes \<lparr>version = CACHE_V1, expiry = e\<rparr>"
  let ?d = "take (data_size mod 2 ^ 32) bytes"
  assume a: "local_cache_add ident e data_size (Some bytes) w = (Inr (), w1)"
  from add_success[OF a] obtain fn where
    g: "get_file_name ident w1 = Inr fn" and c: "map_of (files w1) fn = Some (?hdr @ ?d)"
    by auto
  have va: "take 2 (drop offsetof_version (?hdr @ ?d)) = le_bytes 2 CACHE_V1"
    by (simp add: header_bytes_def offsetof_version_def)
  have ex: "take 8 (drop offsetof_expiry (?hdr @ ?d)) = le_bytes 8 e"
    by (simp add: header_bytes_def offsetof_expiry_def)
  have dr: "drop sizeof_CacheEntryHeaderV1 (?hdr @ ?d) = ?d"
    by simp
  have pl: "data_size < 2 ^ 32 \<and> data_size \<le> length bytes \<longrightarrow>
      drop sizeof_CacheEntryHeaderV1 (?hdr @ ?d) = take data_size bytes \<and>
      data_size = length (?hdr @ ?d) - sizeof_CacheEntryHeaderV1"
    by simp
  show "\<exists>fn c. get_file_name ident w1 = Inr fn \<and> map_of (files w1) fn = Some c \<and>
         c = ?hdr @ ?d \<and>
         take 2 (drop offsetof_version c) = le_bytes 2 CACHE_V1 \<and>
         take 8 (drop offsetof_expiry c) = le_bytes 8 e \<and>
         drop sizeof_CacheEntryHeaderV1 c = ?d \<and>
         offsetof_version = 0 \<and> offsetof_expiry = 8 \<and> sizeof_CacheEntryHeaderV1 = 16 \<and>
         (data_size < 2 ^ 32 \<and> data_size \<le> length bytes \<longrightarrow>
            drop sizeof_CacheEntryHeaderV1 c = take data_size bytes \<and>
            data_size = length c - sizeof_CacheEntryHeaderV1)"
    apply (rule exI[of _ fn], rule exI[of _ "?hdr @ ?d"])
    apply (intro conjI g c refl va ex dr pl)
      apply (simp_all only: offsetof_version_def offsetof_expiry_def sizeof_CacheEntryHeaderV1_def)
    done
next
  assume b: "key \<noteq> [] \<and> init v = (Inr (), v1) \<and> get_file_name key v1 = Inr path \<and>
    map_of (files v1) path = Some content \<and>
    sizeof_CacheEntryHeaderV1 \<le> length content \<and>
    length content < 2 ^ 31 + sizeof_CacheEntryHeaderV1 \<and>
    OpenHandle path GENERIC_READ OPEN_EXISTING v1 = (Some h, v2) \<and>
    faults v2 (fault_pos v2) = 0 \<and> faults v2 (Suc (fault_pos v2)) = 0 \<and>
    sint (now v1) < sint (expiry (stored_header content))"
  have "fst (local_cache_get key v) = Inr (Some (drop sizeof_CacheEntryHeaderV1 content))"
    by (rule get_unexpired_lemma[of key v v1 path h v2 content]) (use b in blast)+
  then show "\<exists>payload. fst (local_cache_get key v) = Inr (Some payload) \<and>
         payload = drop sizeof_CacheEntryHeaderV1 content \<and>
         length payload = length content - sizeof_CacheEntryHeaderV1"
    by simp
qed

theorem entry_file_layout_witness:
  "fst (local_cache_add ''k'' 2000 3 (Some [1, 2, 3]) example_world) = Inr () \<and>
   get_file_name ''k'' (snd (local_cache_add ''k'' 2000 3 (Some [1, 2, 3]) example_world))
     = Inr entry_file \<and>
   map_of (files (snd (local_cache_add ''k'' 2000 3 (Some [1, 2, 3]) example_world))) entry_file
     = Some [1, 0, 0, 0, 0, 0, 0, 0, 0xD0, 7, 0, 0, 0, 0, 0, 0, 1, 2, 3] \<and>
   take 8 (drop 8 [1, 0, 0, 0, 0, 0, 0, 0, 0xD0, 7, 0, 0, 0, 0, 0, 0, 1, 2, 3 :: byte])
     = le_bytes 8 (2000 :: time_t) \<and>
   drop 16 [1, 0, 0, 0, 0, 0, 0, 0, 0xD0, 7, 0, 0, 0, 0, 0, 0, 1, 2, 3 :: byte] = [1, 2, 3] \<and>
   fst (local_cache_get ''k''
          (cached_world [1, 0, 0, 0, 0, 0, 0, 0, 0xD0, 7, 0, 0, 0, 0, 0, 0, 9, 8]))
     = Inr (Some [9, 8])"
  using entry_file_layout [of "''k''" 2000 3 "[1, 2, 3]" example_world
      "snd (local_cache_add ''k'' 2000 3 (Some [1, 2, 3]) example_world)"
      "''k''" "cached_world [1, 0, 0, 0, 0, 0, 0, 0, 0xD0, 7, 0, 0, 0, 0, 0, 0, 9, 8]"
      "cached_world [1, 0, 0, 0, 0, 0, 0, 0, 0xD0, 7, 0, 0, 0, 0, 0, 0, 9, 8]"
      entry_file "[1, 0, 0, 0, 0, 0, 0, 0, 0xD0, 7, 0, 0, 0, 0, 0, 0, 9, 8]"
      "\<lparr>hpath = entry_file, hpos = 0\<rparr>"
      "snd (OpenHandle entry_file GENERIC_READ OPEN_EXISTING
         (cached_world [1, 0, 0, 0, 0, 0, 0, 0, 0xD0, 7, 0, 0, 0, 0, 0, 0, 9, 8]))"]
  by (simp add: example_defs eval_defs upt_rec replicate_6)

text \<open>
  The offsets of the claim, expiry at 2 and payload at 10, are not those of the file: for
  the key \<^verbatim>\<open>k\<close>, the expiry 2000 and the payload 1 2 3 the file has 19 bytes, the
  three bytes from offset 10 on are not the payload, and the eight bytes from offset 2
  on are not the expiry.
\<close>

theorem entry_file_layout_counterexample:
  "fst (local_cache_add ''k'' 2000 3 (Some [1, 2, 3]) example_world) = Inr () \<and>
   map_of (files (snd (local_cache_add ''k'' 2000 3 (Some [1, 2, 3]) example_world))) entry_file
     = Some [1, 0, 0, 0, 0, 0, 0, 0, 0xD0, 7, 0, 0, 0, 0, 0, 0, 1, 2, 3] \<and>
   length [1, 0, 0, 0, 0, 0, 0, 0, 0xD0, 7, 0, 0, 0, 0, 0, 0, 1, 2, 3 :: byte] - 10
     \<noteq> length [1, 2, 3 :: byte] \<and>
   drop 10 [1, 0, 0, 0, 0, 0, 0, 0, 0xD0, 7, 0, 0, 0, 0, 0, 0, 1, 2, 3 :: byte] \<noteq> [1, 2, 3] \<and>
   take 8 (drop 2 [1, 0, 0, 0, 0, 0, 0, 0, 0xD0, 7, 0, 0, 0, 0, 0, 0, 1, 2, 3 :: byte])
     \<noteq> le_bytes 8 (2000 :: time_t)"
  by (simp add: example_defs eval_defs upt_rec replicate_6)

text \<open>
  Claim C3, amended. For every non-empty key, whenever the open of
  \<^verbatim>\<open>local_cache_get\<close> fails, because the entry file does not exist or for any other
  reason, the exhaustion of the retry budget included, the call returns not-found:
  \<^verbatim>\<open>nullptr\<close> is returned as soon as \<^verbatim>\<open>OpenHandle\<close> returns
  \<^verbatim>\<open>INVALID_HANDLE_VALUE\<close>, and the last error is not looked at.
\<close>

theorem open_failure_is_not_found:
  assumes "ident \<noteq> []" and "init w = (Inr (), w1)" and "get_file_name ident w1 = Inr fn"
    and "fst (OpenHandle fn GENERIC_READ OPEN_EXISTING w1) = None"
  shows "local_cache_get ident w = (Inr None, snd (OpenHandle fn GENERIC_READ OPEN_EXISTING w1))"
  using assms
  by (cases "OpenHandle fn GENERIC_READ OPEN_EXISTING w1") (simp add: local_cache_get_def)

theorem open_failure_is_not_found_witness:
  "local_cache_get ''k'' (cached_world [] \<lparr>files := []\<rparr>)
     = (Inr None, cached_world [] \<lparr>files := [], fault_pos := 1, slept := 15,
                    last_error := ERROR_FILE_NOT_FOUND\<rparr>) \<and>
   local_cache_get ''k'' (cached_world [] \<lparr>faults := (\<lambda>i. ERROR_SHARING_VIOLATION)\<rparr>)
     = (Inr None, cached_world [] \<lparr>faults := (\<lambda>i. ERROR_SHARING_VIOLATION),
                    fault_pos := MAX_RETRY, slept := MAX_RETRY * SLEEP_RETRY_MS,
                    last_error := ERROR_SHARING_VIOLATION\<rparr>)"
proof (intro conjI)
  show "local_cache_get ''k'' (cached_world [] \<lparr>files := []\<rparr>)
     = (Inr None, cached_world [] \<lparr>files := [], fault_pos := 1, slept := 15,
                    last_error := ERROR_FILE_NOT_FOUND\<rparr>)"
    using open_failure_is_not_found [of "''k''" "cached_world [] \<lparr>files := []\<rparr>"
      "cached_world [] \<lparr>files := []\<rparr>" entry_file]
    by (simp add: example_defs eval_defs)
  show "local_cache_get ''k'' (cached_world [] \<lparr>faults := (\<lambda>i. ERROR_SHARING_VIOLATION)\<rparr>)
     = (Inr None, cached_world [] \<lparr>faults := (\<lambda>i. ERROR_SHARING_VIOLATION),
                    fault_pos := MAX_RETRY, slept := MAX_RETRY * SLEEP_RETRY_MS,
                    last_error := ERROR_SHARING_VIOLATION\<rparr>)"
    using open_failure_is_not_found [of "''k''"
        "cached_world [] \<lparr>faults := (\<lambda>i. ERROR_SHARING_VIOLATION)\<rparr>"
        "cached_world [] \<lparr>faults := (\<lambda>i. ERROR_SHARING_VIOLATION)\<rparr>" entry_file]
      OpenHandle_exhausted [of "cached_world [] \<lparr>faults := (\<lambda>i. ERROR_SHARING_VIOLATION)\<rparr>"
        entry_file GENERIC_READ OPEN_EXISTING]
    by (simp add: example_defs get_file_name_def sha256_def NT_SUCCESS_def hex_byte_def
        hex_digit_def backslash_def)
qed

text \<open>
  The claim as stated fails: the entry file exists, the open fails with
  \<^verbatim>\<open>ERROR_ACCESS_DENIED\<close>, and the call returns not-found where the claim asks for
  a fatal I/O error.
\<close>

theorem open_failure_is_not_found_counterexample:
  "map_of (files (cached_world (header_bytes \<lparr>version = 1, expiry = 2000\<rparr> @ [1, 2, 3]))) entry_file
     = Some (header_bytes \<lparr>version = 1, expiry = 2000\<rparr> @ [1, 2, 3]) \<and>
   OpenHandle entry_file GENERIC_READ OPEN_EXISTING
     (cached_world (header_bytes \<lparr>version = 1, expiry = 2000\<rparr> @ [1, 2, 3])
        \<lparr>faults := (\<lambda>i. ERROR_ACCESS_DENIED)\<rparr>)
     = (None, cached_world (header_bytes \<lparr>version = 1, expiry = 2000\<rparr> @ [1, 2, 3])
        \<lparr>faults := (\<lambda>i. ERROR_ACCESS_DENIED), fault_pos := 1, slept := 15,
          last_error := ERROR_ACCESS_DENIED\<rparr>) \<and>
   ERROR_ACCESS_DENIED \<noteq> ERROR_FILE_NOT_FOUND \<and>
   fst (local_cache_get ''k''
     (cached_world (header_bytes \<lparr>version = 1, expiry = 2000\<rparr> @ [1, 2, 3])
        \<lparr>faults := (\<lambda>i. ERROR_ACCESS_DENIED)\<rparr>)) = Inr None"
  by (simp add: example_defs eval_defs upt_rec)



text \<open>
  Claim C5, amended. \<^verbatim>\<open>make_dir\<close> treats "already exists" as success, and it
  throws exactly when the last error after \<^verbatim>\<open>CreateDirectory\<close> is
  \<^verbatim>\<open>ERROR_PATH_NOT_FOUND\<close>: a creation that fails with that code is fatal, a creation
  that fails with any other code, access denied for example, is not noticed, and
  \<^verbatim>\<open>make_dir\<close> returns normally. The error of \<^verbatim>\<open>make_dir\<close> is the error of
  \<^verbatim>\<open>init\<close>, which leaves the once-flag unset, and of the operation that called it.
\<close>

theorem make_dir_failure_codes:
  "(faults w (fault_pos w) \<noteq> 0 \<longrightarrow>
      fst (CreateDirectory d w) = False \<and>
      last_error (snd (CreateDirectory d w)) = faults w (fault_pos w) \<and>
      fst (make_dir d w) =
        (if faults w (fault_pos w) = ERROR_PATH_NOT_FOUND then Inl Path_not_found else Inr ())) \<and>
   (faults w (fault_pos w) = 0 \<and> d \<in> set (dirs w) \<longrightarrow>
      fst (CreateDirectory d w) = False \<and>
      last_error (snd (CreateDirectory d w)) = ERROR_ALREADY_EXISTS \<and>
      fst (make_dir d w) = Inr ()) \<and>
   (fst (make_dir d w) = Inl Path_not_found \<longrightarrow>
      last_error (snd (CreateDirectory d w)) = ERROR_PATH_NOT_FOUND) \<and>
   (environ w ''LOCALAPPDATA'' = Some base \<and> base \<noteq> [] \<and> \<not> init_flag w \<and>
    faults w (fault_pos w) = ERROR_PATH_NOT_FOUND \<longrightarrow>
      fst (init w) = Inl Path_not_found \<and> \<not> init_flag (snd (init w)) \<and>
      fst (local_cache_clear w) = Inl Path_not_found \<and>
      (ident \<noteq> [] \<longrightarrow> fst (local_cache_get ident w) = Inl Path_not_found) \<and>
      (ident \<noteq> [] \<and> n \<noteq> 0 \<longrightarrow>
         fst (local_cache_add ident x n (Some bs) w) = Inl Path_not_found))"
proof -
  have a: "(faults w (fault_pos w) \<noteq> 0 \<longrightarrow>
      fst (CreateDirectory d w) = False \<and>
      last_error (snd (CreateDirectory d w)) = faults w (fault_pos w) \<and>
      fst (make_dir d w) =
        (if faults w (fault_pos w) = ERROR_PATH_NOT_FOUND then Inl Path_not_found else Inr ())) \<and>
   (faults w (fault_pos w) = 0 \<and> d \<in> set (dirs w) \<longrightarrow>
      fst (CreateDirectory d w) = False \<and>
      last_error (snd (CreateDirectory d w)) = ERROR_ALREADY_EXISTS \<and>
      fst (make_dir d w) = Inr ()) \<and>
   (fst (make_dir d w) = Inl Path_not_found \<longrightarrow>
      last_error (snd (CreateDirectory d w)) = ERROR_PATH_NOT_FOUND)"
    by (simp add: make_dir_def CreateDirectory_def take_fault_def GetLastError_def Let_def
        winerror_defs split: prod.splits)
  have b: "environ w ''LOCALAPPDATA'' = Some base \<and> base \<noteq> [] \<and> \<not> init_flag w \<and>
    faults w (fault_pos w) = ERROR_PATH_NOT_FOUND \<longrightarrow>
      fst (init w) = Inl Path_not_found \<and> \<not> init_flag (snd (init w)) \<and>
      fst (local_cache_clear w) = Inl Path_not_found \<and>
      (ident \<noteq> [] \<longrightarrow> fst (local_cache_get ident w) = Inl Path_not_found) \<and>
      (ident \<noteq> [] \<and> n \<noteq> 0 \<longrightarrow>
         fst (local_cache_add ident x n (Some bs) w) = Inl Path_not_found)"
  proof
    assume h: "environ w ''LOCALAPPDATA'' = Some base \<and> base \<noteq> [] \<and> \<not> init_flag w \<and>
      faults w (fault_pos w) = ERROR_PATH_NOT_FOUND"
    then have i: "init w = (Inl Path_not_found,
           snd (CreateDirectory (base @ backslash @ ''.az-dcap-client'')
             (snd (GetEnvironmentVariable ''AZDCAP_CACHE'' (fresh w (Suc (allocs w)))
                    (w\<lparr>allocs := Suc (Suc (allocs w))\<rparr>)))))"
      using init_path_not_found by blast
    then have e: "fst (init w) = Inl Path_not_found" by simp
    have f: "\<not> init_flag (snd (init w))"
      using h unfolding i
      by (simp add: CreateDirectory_def take_fault_def GetEnvironmentVariable_def Let_def
          winerror_defs split: option.splits)
    from e f init_error_propagates[OF e]
    show "fst (init w) = Inl Path_not_found \<and> \<not> init_flag (snd (init w)) \<and>
      fst (local_cache_clear w) = Inl Path_not_found \<and>
      (ident \<noteq> [] \<longrightarrow> fst (local_cache_get ident w) = Inl Path_not_found) \<and>
      (ident \<noteq> [] \<and> n \<noteq> 0 \<longrightarrow>
         fst (local_cache_add ident x n (Some bs) w) = Inl Path_not_found)"
      by blast
  qed
  from a b show ?thesis by blast
qed

theorem make_dir_failure_codes_witness:
  "fst (make_dir cache_dir (example_world\<lparr>faults := (\<lambda>i. ERROR_PATH_NOT_FOUND)\<rparr>))
     = Inl Path_not_found \<and>
   fst (make_dir cache_dir (example_world\<lparr>faults := (\<lambda>i. ERROR_ACCESS_DENIED)\<rparr>)) = Inr () \<and>
   fst (make_dir cache_dir (example_world\<lparr>dirs := [cache_dir, ''C:'']\<rparr>)) = Inr () \<and>
   last_error (snd (CreateDirectory cache_dir (example_world\<lparr>dirs := [cache_dir, ''C:'']\<rparr>)))
     = ERROR_ALREADY_EXISTS \<and>
   fst (local_cache_get ''k'' (example_world\<lparr>faults := (\<lambda>i. ERROR_PATH_NOT_FOUND)\<rparr>))
     = Inl Path_not_found"
  using make_dir_failure_codes [of "example_world\<lparr>faults := (\<lambda>i. ERROR_PATH_NOT_FOUND)\<rparr>"
      cache_dir "''C:''" "''k''" 3 2000 "[1, 2, 3]"]
    make_dir_failure_codes [of "example_world\<lparr>faults := (\<lambda>i. ERROR_ACCESS_DENIED)\<rparr>" cache_dir]
    make_dir_failure_codes [of "example_world\<lparr>dirs := [cache_dir, ''C:'']\<rparr>" cache_dir]
  by (simp add: example_defs winerror_defs)

text \<open>
  The claim as stated fails: \<^verbatim>\<open>CreateDirectory\<close> fails with
  \<^verbatim>\<open>ERROR_ACCESS_DENIED\<close>, which is not "already exists", and \<^verbatim>\<open>make_dir\<close> and
  \<^verbatim>\<open>init\<close> succeed although the directory does not exist.
\<close>

theorem make_dir_failure_codes_counterexample:
  "fst (CreateDirectory cache_dir (example_world\<lparr>faults := (\<lambda>i. ERROR_ACCESS_DENIED)\<rparr>)) = False \<and>
   last_error (snd (CreateDirectory cache_dir (example_world\<lparr>faults := (\<lambda>i. ERROR_ACCESS_DENIED)\<rparr>)))
     = ERROR_ACCESS_DENIED \<and>
   ERROR_ACCESS_DENIED \<noteq> ERROR_ALREADY_EXISTS \<and>
   fst (make_dir cache_dir (example_world\<lparr>faults := (\<lambda>i. ERROR_ACCESS_DENIED)\<rparr>)) = Inr () \<and>
   fst (init (example_world\<lparr>faults := (\<lambda>i. ERROR_ACCESS_DENIED)\<rparr>)) = Inr () \<and>
   cache_dir \<notin> set (dirs (snd (init (example_world\<lparr>faults := (\<lambda>i. ERROR_ACCESS_DENIED)\<rparr>))))"
  by (simp add: example_defs eval_defs)

text \<open>
  Claim C6. \<^verbatim>\<open>OpenHandle\<close> makes at most \<open>MAX_RETRY\<close> = 10000 attempts and makes
  another attempt only after a sharing violation. If the first \<open>k\<close> attempts
  (\<open>k < MAX_RETRY\<close>) meet a sharing violation and attempt \<open>k + 1\<close> meets anything else
  (success, or any other failure), the loop ends there: the call returns what that
  attempt returned, after \<open>k + 1\<close> attempts. If the first \<open>MAX_RETRY\<close> attempts all meet
  a sharing violation, the call makes exactly \<open>MAX_RETRY\<close> attempts and returns
  \<^verbatim>\<open>INVALID_HANDLE_VALUE\<close> with the sharing violation as last error. (Each attempt,
  the last one too, is followed by the 15 ms sleep.)
\<close>

theorem OpenHandle_bounded_retry:
  "(k < MAX_RETRY \<and> (\<forall>j<k. faults w (fault_pos w + j) = ERROR_SHARING_VIOLATION) \<and>
      faults w (fault_pos w + k) \<noteq> ERROR_SHARING_VIOLATION \<longrightarrow>
    OpenHandle p a d w =
      (case CreateFile p a d (w\<lparr>fault_pos := fault_pos w + k,
                                  slept := slept w + k * SLEEP_RETRY_MS\<rparr>) of
         (f, w1) \<Rightarrow> (f, Sleep SLEEP_RETRY_MS w1)) \<and>
    fault_pos (snd (OpenHandle p a d w)) = fault_pos w + (k + 1) \<and> k + 1 \<le> MAX_RETRY) \<and>
   ((\<forall>j<MAX_RETRY. faults w (fault_pos w + j) = ERROR_SHARING_VIOLATION) \<longrightarrow>
    OpenHandle p a d w =
      (None, w\<lparr>fault_pos := fault_pos w + MAX_RETRY,
               slept := slept w + MAX_RETRY * SLEEP_RETRY_MS,
               last_error := ERROR_SHARING_VIOLATION\<rparr>))"
proof (intro conjI impI)
  assume h: "k < MAX_RETRY \<and> (\<forall>j<k. faults w (fault_pos w + j) = ERROR_SHARING_VIOLATION) \<and>
      faults w (fault_pos w + k) \<noteq> ERROR_SHARING_VIOLATION"
  then show eq: "OpenHandle p a d w =
      (case CreateFile p a d (w\<lparr>fault_pos := fault_pos w + k,
                                  slept := slept w + k * SLEEP_RETRY_MS\<rparr>) of
         (f, w1) \<Rightarrow> (f, Sleep SLEEP_RETRY_MS w1))"
    using OpenHandle_first_other by blast
  show "fault_pos (snd (OpenHandle p a d w)) = fault_pos w + (k + 1)"
    unfolding eq
    by (simp add: CreateFile_def take_fault_def Sleep_def Let_def split: disposition.splits option.splits)
  show "k + 1 \<le> MAX_RETRY" using h by simp
next
  assume "\<forall>j<MAX_RETRY. faults w (fault_pos w + j) = ERROR_SHARING_VIOLATION"
  then show "OpenHandle p a d w =
      (None, w\<lparr>fault_pos := fault_pos w + MAX_RETRY,
               slept := slept w + MAX_RETRY * SLEEP_RETRY_MS,
               last_error := ERROR_SHARING_VIOLATION\<rparr>)"
    by (rule OpenHandle_exhausted)
qed

theorem OpenHandle_bounded_retry_witness:
  "OpenHandle entry_file GENERIC_READ OPEN_EXISTING
      (example_world\<lparr>faults := (\<lambda>i. if i < 2 then ERROR_SHARING_VIOLATION else ERROR_ACCESS_DENIED)\<rparr>)
    = (None, example_world\<lparr>faults := (\<lambda>i. if i < 2 then ERROR_SHARING_VIOLATION else ERROR_ACCESS_DENIED),
                fault_pos := 3, slept := 45, last_error := ERROR_ACCESS_DENIED\<rparr>) \<and>
   OpenHandle entry_file GENERIC_READ OPEN_EXISTING
      (example_world\<lparr>faults := (\<lambda>i. ERROR_SHARING_VIOLATION)\<rparr>)
    = (None, example_world\<lparr>faults := (\<lambda>i. ERROR_SHARING_VIOLATION),
                fault_pos := 10000, slept := 150000, last_error := ERROR_SHARING_VIOLATION\<rparr>)"
  using OpenHandle_bounded_retry [of 2
      "example_world\<lparr>faults := (\<lambda>i. if i < 2 then ERROR_SHARING_VIOLATION else ERROR_ACCESS_DENIED)\<rparr>"
      entry_file GENERIC_READ OPEN_EXISTING]
    OpenHandle_bounded_retry [of 0 "example_world\<lparr>faults := (\<lambda>i. ERROR_SHARING_VIOLATION)\<rparr>"
      entry_file GENERIC_READ OPEN_EXISTING]
  by (simp add: example_world_def MAX_RETRY_def SLEEP_RETRY_MS_def winerror_defs CreateFile_def
      take_fault_def Sleep_def)

text \<open>
  Claim C7. \<^verbatim>\<open>local_cache_add\<close> with an empty key, a zero \<^verbatim>\<open>data_size\<close> or a null
  data pointer, and \<^verbatim>\<open>local_cache_get\<close> with an empty key, throw an argument error
  and leave the world exactly as it was: no initialisation has run and no API call has
  been made (each fallible call would have moved \<open>fault_pos\<close>).
\<close>

theorem precondition_rejection:
  "(ident = [] \<or> data_size = 0 \<or> data = None \<longrightarrow>
      (\<exists>e. local_cache_add ident expiry_arg data_size data w = (Inl e, w) \<and> argument_error e)) \<and>
   local_cache_get [] w = (Inl Id_must_not_be_empty, w) \<and>
   argument_error Id_must_not_be_empty"
  by (auto simp: local_cache_add_def local_cache_get_def argument_error_def split: option.splits)

theorem precondition_rejection_witness:
  "(\<exists>e. local_cache_add [] 2000 3 (Some [1, 2, 3]) example_world = (Inl e, example_world) \<and>
        argument_error e) \<and>
   (\<exists>e. local_cache_add ''k'' 2000 0 (Some []) example_world = (Inl e, example_world) \<and>
        argument_error e) \<and>
   (\<exists>e. local_cache_add ''k'' 2000 3 None example_world = (Inl e, example_world) \<and>
        argument_error e) \<and>
   local_cache_get [] example_world = (Inl Id_must_not_be_empty, example_world)"
  using precondition_rejection [of "[]" 3 "Some [1, 2, 3]" 2000 example_world]
    precondition_rejection [of "''k''" 0 "Some []" 2000 example_world]
    precondition_rejection [of "''k''" 3 None 2000 example_world]
  by simp




text \<open>
  Claim C9, where the code departs from the claim. \<^verbatim>\<open>init_callback\<close> tests the first
  character of two buffers that \<^verbatim>\<open>new TCHAR[buffSize]\<close> does not initialise and that
  \<^verbatim>\<open>GetEnvironmentVariable\<close> leaves as they are for an undefined variable. With
  neither variable defined and fresh buffers that hold the text \<^verbatim>\<open>XY\<close>, it takes
  \<^verbatim>\<open>XY\<close> as the base directory: when a directory \<^verbatim>\<open>XY\<close> exists it creates
  \<^verbatim>\<open>XY\.az-dcap-client\<close> and succeeds, and when none exists it fails in \<^verbatim>\<open>make_dir\<close>
  with the path-not-found error; in neither case with the configuration error that the
  claim (and the comment in the code) asks for. With only \<^verbatim>\<open>AZDCAP_CACHE\<close> defined it
  takes \<^verbatim>\<open>XY\<close> again, not the override.
\<close>

theorem resolution_reads_uninitialised_buffer:
  "environ (example_world\<lparr>environ := Map.empty, fresh := (\<lambda>i. ''XY''),
                          dirs := [''XY'', ''C:'']\<rparr>) ''LOCALAPPDATA'' = None \<and>
   environ (example_world\<lparr>environ := Map.empty, fresh := (\<lambda>i. ''XY''),
                          dirs := [''XY'', ''C:'']\<rparr>) ''AZDCAP_CACHE'' = None \<and>
   init_callback (example_world\<lparr>environ := Map.empty, fresh := (\<lambda>i. ''XY''),
                                dirs := [''XY'', ''C:'']\<rparr>)
     = (Inr (), example_world\<lparr>environ := Map.empty, fresh := (\<lambda>i. ''XY''), allocs := 2,
                  last_error := ERROR_ENVVAR_NOT_FOUND, fault_pos := 1,
                  dirs := [''XY'' @ backslash @ ''.az-dcap-client'', ''XY'', ''C:''],
                  g_cache_dirname := ''XY'' @ backslash @ ''.az-dcap-client''\<rparr>) \<and>
   fst (init_callback (example_world\<lparr>environ := Map.empty, fresh := (\<lambda>i. ''XY''),
                                     dirs := [''XY'', ''C:'']\<rparr>))
     \<noteq> Inl Environment_not_defined \<and>
   g_cache_dirname (snd (init_callback
       (example_world\<lparr>environ := [''AZDCAP_CACHE'' \<mapsto> ''D:''], fresh := (\<lambda>i. ''XY''),
                      dirs := [''XY'', ''D:'', ''C:'']\<rparr>)))
     = ''XY'' @ backslash @ ''.az-dcap-client'' \<and>
   fst (init_callback (example_world\<lparr>environ := Map.empty, fresh := (\<lambda>i. ''XY'')\<rparr>))
     = Inl Path_not_found"
  by (simp add: example_defs eval_defs)

text \<open>
  Claim C10, amended. \<^verbatim>\<open>local_cache_get\<close> never looks at the number of header bytes
  it has read; the bytes of \<^verbatim>\<open>buf\<close> that the read did not reach stay zero. For an
  existing entry file shorter than the header, when the expiry decoded from that
  zero-padded header is at or before the current time, the call deletes the file and
  returns not-found without an error. This is the case for every file of at most 8
  bytes, the empty file included, when the clock is not before the epoch: no byte of
  the expiry field is read and the expiry is zero. For a file of 9 to 15 bytes whose
  bytes from offset 8 on decode to a later time, the call instead throws, from the
  vector constructor, since \<^verbatim>\<open>datasize\<close> is negative.
\<close>

theorem short_file_read:
  assumes "ident \<noteq> []" and "init w = (Inr (), w1)" and "get_file_name ident w1 = Inr fn"
    and "map_of (files w1) fn = Some c"
    and "OpenHandle fn GENERIC_READ OPEN_EXISTING w1 = (Some h, w2)"
    and "faults w2 (fault_pos w2) = 0"
    and "length c < sizeof_CacheEntryHeaderV1"
  shows "(sint (expiry (stored_header c)) \<le> sint (now w1) \<longrightarrow>
            fst (local_cache_get ident w) = Inr None \<and>
            (faults w2 (Suc (fault_pos w2)) = 0 \<longrightarrow>
               map_of (files (snd (local_cache_get ident w))) fn = None)) \<and>
         (length c \<le> offsetof_expiry \<longrightarrow> expiry (stored_header c) = 0) \<and>
         (length c \<le> offsetof_expiry \<and> 0 \<le> sint (now w1) \<longrightarrow>
            fst (local_cache_get ident w) = Inr None) \<and>
         (sint (now w1) < sint (expiry (stored_header c)) \<longrightarrow>
            fst (local_cache_get ident w) = Inl Vector_too_long \<and>
            map_of (files (snd (local_cache_get ident w))) fn = Some c)"
proof -
  let ?w3 = "w2\<lparr>fault_pos := Suc (fault_pos w2)\<rparr>"
  from OpenHandle_OPEN_EXISTING_Some[OF assms(5)] assms(4)
  have c: "map_of (files ?w3) fn = Some c" by simp
  have exp: "sint (expiry (stored_header c)) \<le> sint (now w1) \<Longrightarrow>
      local_cache_get ident w = (Inr None, snd (DeleteFileW fn ?w3))"
    by (rule get_expired_lemma[OF assms(1,2,3,5,6,4)])
  have a: "sint (expiry (stored_header c)) \<le> sint (now w1) \<longrightarrow>
            fst (local_cache_get ident w) = Inr None \<and>
            (faults w2 (Suc (fault_pos w2)) = 0 \<longrightarrow>
               map_of (files (snd (local_cache_get ident w))) fn = None)"
  proof (intro impI conjI)
    assume e: "sint (expiry (stored_header c)) \<le> sint (now w1)"
    show "fst (local_cache_get ident w) = Inr None" using exp[OF e] by simp
    assume "faults w2 (Suc (fault_pos w2)) = 0"
    then have "faults ?w3 (fault_pos ?w3) = 0" by simp
    from DeleteFileW_nominal[OF this c]
    show "map_of (files (snd (local_cache_get ident w))) fn = None"
      by (simp add: exp[OF e] delete_conv')
  qed
  have b: "length c \<le> offsetof_expiry \<longrightarrow> expiry (stored_header c) = 0"
    using stored_expiry_unread by blast
  have d: "sint (now w1) < sint (expiry (stored_header c)) \<longrightarrow>
            fst (local_cache_get ident w) = Inl Vector_too_long \<and>
            map_of (files (snd (local_cache_get ident w))) fn = Some c"
    using get_short_unexpired_lemma[OF assms(1,2,3,5,6,4,7)] c by simp
  from a b d show ?thesis by simp
qed

theorem short_file_read_witness:
  "fst (local_cache_get ''k'' (cached_world [])) = Inr None \<and>
   map_of (files (snd (local_cache_get ''k'' (cached_world [])))) entry_file = None \<and>
   fst (local_cache_get ''k'' (cached_world [1, 0, 0, 0, 0, 0, 0, 0])) = Inr None \<and>
   fst (local_cache_get ''k'' (cached_world [1, 0, 0, 0, 0, 0, 0, 0, 0xE8, 3])) = Inr None \<and>
   fst (local_cache_get ''k'' (cached_world [1, 0, 0, 0, 0, 0, 0, 0, 0xE9, 3])) = Inl Vector_too_long"
  using short_file_read [of "''k''" "cached_world []" "cached_world []" entry_file "[]"
      "\<lparr>hpath = entry_file, hpos = 0\<rparr>"
      "(cached_world [])\<lparr>fault_pos := 1, slept := 15, last_error := 0\<rparr>"]
    short_file_read [of "''k''" "cached_world [1, 0, 0, 0, 0, 0, 0, 0]"
      "cached_world [1, 0, 0, 0, 0, 0, 0, 0]" entry_file "[1, 0, 0, 0, 0, 0, 0, 0]"
      "\<lparr>hpath = entry_file, hpos = 0\<rparr>"
      "(cached_world [1, 0, 0, 0, 0, 0, 0, 0])\<lparr>fault_pos := 1, slept := 15, last_error := 0\<rparr>"]
    short_file_read [of "''k''" "cached_world [1, 0, 0, 0, 0, 0, 0, 0, 0xE8, 3]"
      "cached_world [1, 0, 0, 0, 0, 0, 0, 0, 0xE8, 3]" entry_file "[1, 0, 0, 0, 0, 0, 0, 0, 0xE8, 3]"
      "\<lparr>hpath = entry_file, hpos = 0\<rparr>"
      "(cached_world [1, 0, 0, 0, 0, 0, 0, 0, 0xE8, 3])\<lparr>fault_pos := 1, slept := 15, last_error := 0\<rparr>"]
    short_file_read [of "''k''" "cached_world [1, 0, 0, 0, 0, 0, 0, 0, 0xE9, 3]"
      "cached_world [1, 0, 0, 0, 0, 0, 0, 0, 0xE9, 3]" entry_file "[1, 0, 0, 0, 0, 0, 0, 0, 0xE9, 3]"
      "\<lparr>hpath = entry_file, hpos = 0\<rparr>"
      "(cached_world [1, 0, 0, 0, 0, 0, 0, 0, 0xE9, 3])\<lparr>fault_pos := 1, slept := 15, last_error := 0\<rparr>"]
  by (simp add: example_defs eval_defs stored_header_def upt_rec)

text \<open>
  The claim as stated, for every file shorter than the header, fails for the 12-byte
  file below: the four expiry bytes that are read give the year 2038, the entry is not
  expired, and the call throws and leaves the file in place.
\<close>

theorem short_file_read_counterexample:
  "length [1, 0, 0, 0, 0, 0, 0, 0, 0xFF, 0xFF, 0xFF, 0x7F :: byte] < sizeof_CacheEntryHeaderV1 \<and>
   map_of (files (cached_world [1, 0, 0, 0, 0, 0, 0, 0, 0xFF, 0xFF, 0xFF, 0x7F])) entry_file
     = Some [1, 0, 0, 0, 0, 0, 0, 0, 0xFF, 0xFF, 0xFF, 0x7F] \<and>
   get_file_name ''k'' (cached_world [1, 0, 0, 0, 0, 0, 0, 0, 0xFF, 0xFF, 0xFF, 0x7F])
     = Inr entry_file \<and>
   fst (local_cache_get ''k'' (cached_world [1, 0, 0, 0, 0, 0, 0, 0, 0xFF, 0xFF, 0xFF, 0x7F]))
     = Inl Vector_too_long \<and>
   map_of (files (snd (local_cache_get ''k''
       (cached_world [1, 0, 0, 0, 0, 0, 0, 0, 0xFF, 0xFF, 0xFF, 0x7F])))) entry_file
     = Some [1, 0, 0, 0, 0, 0, 0, 0, 0xFF, 0xFF, 0xFF, 0x7F]"
  by (simp add: example_defs eval_defs upt_rec)

end
